theory Spec2Isabelle
  imports Complex_Main
begin

section \<open>Python values used by the shop API\<close>

text \<open>
  A Python \<open>str\<close> is a sequence of Unicode code points, so it is modelled as a list of
  code points. \<open>ustr\<close> embeds an ASCII literal.
\<close>

type_synonym pystr = "nat list"

definition ustr :: "string \<Rightarrow> pystr" where
  "ustr s = map of_char s"

text \<open>
  \<open>str.isspace\<close> for one code point: the white-space table of CPython
  (U+0009..U+000D, U+001C..U+0020, U+0085, U+00A0, U+1680, U+2000..U+200A, U+2028, U+2029,
  U+202F, U+205F, U+3000).
\<close>

definition py_isspace :: "nat \<Rightarrow> bool" where
  "py_isspace c =
     ((9 \<le> c \<and> c \<le> 13) \<or> (28 \<le> c \<and> c \<le> 32) \<or> c = 133 \<or> c = 160 \<or> c = 5760
      \<or> (8192 \<le> c \<and> c \<le> 8202) \<or> c = 8232 \<or> c = 8233 \<or> c = 8239 \<or> c = 8287
      \<or> c = 12288)"

text \<open>\<open>s.strip()\<close>: white space removed at both ends.\<close>

definition py_strip :: "pystr \<Rightarrow> pystr" where
  "py_strip s = rev (dropWhile py_isspace (rev (dropWhile py_isspace s)))"

text \<open>
  The values a row of the storage service carries in a numeric column: a JSON number
  arrives as a Python \<open>int\<close> or \<open>float\<close> (a finite float is the rational it denotes),
  a text column as a \<open>str\<close>.
\<close>

datatype pyval = PInt int | PFloat rat | PStr pystr

datatype py_exception = ValueError | IndexError

subsection \<open>\<open>int(...)\<close> and \<open>str(...)\<close>\<close>

text \<open>
  \<open>int(s)\<close> first rewrites the string: a code point below 127 stays as it is, a white
  space code point from 127 on becomes a space, and a decimal digit of the Unicode
  character database becomes its ASCII digit. Afterwards only the ASCII white space
  9..13 and 32 is skipped at both ends, so U+001C..U+001F, which \<open>strip\<close> removes, are
  not skipped by \<open>int\<close>.
\<close>

definition int_isspace :: "nat \<Rightarrow> bool" where
  "int_isspace c = ((9 \<le> c \<and> c \<le> 13) \<or> c = 32 \<or> (127 \<le> c \<and> py_isspace c))"

definition int_strip :: "pystr \<Rightarrow> pystr" where
  "int_strip s = rev (dropWhile int_isspace (rev (dropWhile int_isspace s)))"

text \<open>
  The decimal digits beyond ASCII (Unicode 14.0, the database of CPython 3.11): they come
  in runs of ten, in the order 0 to 9; \<open>decimal_starts\<close> lists the first code point of
  each run.
\<close>

definition decimal_starts :: "nat list" where
  "decimal_starts =
     [1632, 1776, 1984, 2406, 2534, 2662, 2790, 2918, 3046, 3174, 3302, 3430, 3558, 3664,
      3792, 3872, 4160, 4240, 6112, 6160, 6470, 6608, 6784, 6800, 6992, 7088, 7232, 7248,
      42528, 43216, 43264, 43472, 43504, 43600, 44016, 65296, 66720, 68912, 69734, 69872,
      69942, 70096, 70384, 70736, 70864, 71248, 71360, 71472, 71904, 72016, 72784, 73040,
      73120, 92768, 92864, 93008, 120782, 120792, 120802, 120812, 120822, 123200, 123632,
      125264, 130032]"

definition unicode_decimal :: "nat \<Rightarrow> int option" where
  "unicode_decimal c =
     (case find (\<lambda>s. s \<le> c \<and> c < s + 10) decimal_starts of
        None \<Rightarrow> None
      | Some s \<Rightarrow> Some (int c - int s))"

definition digit_val :: "nat \<Rightarrow> int option" where
  "digit_val c =
     (if 48 \<le> c \<and> c \<le> 57 then Some (int c - 48)
      else if 127 \<le> c then unicode_decimal c
      else None)"

text \<open>
  The digits of an integer literal after its first digit: a digit continues the number,
  an underscore must be followed by a digit.
\<close>

fun parse_digits :: "int \<Rightarrow> pystr \<Rightarrow> int option" where
  "parse_digits acc [] = Some acc"
| "parse_digits acc (c # cs) =
     (if c = 95 then
        (case cs of
           [] \<Rightarrow> None
         | c' # cs' \<Rightarrow>
             (case digit_val c' of
                None \<Rightarrow> None
              | Some v \<Rightarrow> parse_digits (acc * 10 + v) cs'))
      else
        (case digit_val c of
           None \<Rightarrow> None
         | Some v \<Rightarrow> parse_digits (acc * 10 + v) cs))"

definition parse_unsigned :: "pystr \<Rightarrow> int option" where
  "parse_unsigned s =
     (case s of
        [] \<Rightarrow> None
      | c # cs \<Rightarrow> (case digit_val c of None \<Rightarrow> None | Some v \<Rightarrow> parse_digits v cs))"

text \<open>
  \<open>int(s)\<close> for a \<open>str\<close>: surrounding white space, an optional sign, the digits. The
  interpreter's optional limit on the number of digits of a conversion between \<open>int\<close>
  and \<open>str\<close> is not modelled.
\<close>

definition py_int_of_str :: "pystr \<Rightarrow> py_exception + int" where
  "py_int_of_str s =
     (case int_strip s of
        [] \<Rightarrow> Inl ValueError
      | c # cs \<Rightarrow>
          (if c = 45 then
             (case parse_unsigned cs of None \<Rightarrow> Inl ValueError | Some n \<Rightarrow> Inr (- n))
           else if c = 43 then
             (case parse_unsigned cs of None \<Rightarrow> Inl ValueError | Some n \<Rightarrow> Inr n)
           else
             (case parse_unsigned (c # cs) of None \<Rightarrow> Inl ValueError | Some n \<Rightarrow> Inr n)))"

text \<open>\<open>int(x)\<close>: an \<open>int\<close> is itself, a \<open>float\<close> is truncated towards zero, a \<open>str\<close> is parsed.\<close>

definition py_int :: "pyval \<Rightarrow> py_exception + int" where
  "py_int v =
     (case v of
        PInt i \<Rightarrow> Inr i
      | PFloat r \<Rightarrow> Inr (if 0 \<le> r then \<lfloor>r\<rfloor> else \<lceil>r\<rceil>)
      | PStr s \<Rightarrow> py_int_of_str s)"

fun digits :: "nat \<Rightarrow> pystr" where
  "digits n = (if n < 10 then [48 + n] else digits (n div 10) @ [48 + n mod 10])"

declare digits.simps [simp del]

text \<open>\<open>str(i)\<close> for an \<open>int\<close>.\<close>

definition py_str :: "int \<Rightarrow> pystr" where
  "py_str i = (if i < 0 then 45 # digits (nat (- i)) else digits (nat i))"

text \<open>
  The format specification \<open>,\<close>: a comma before every group of three digits, counted
  from the right. \<open>group3\<close> works on the reversed digit string.
\<close>

fun group3 :: "pystr \<Rightarrow> pystr" where
  "group3 (a # b # c # d # rest) = a # b # c # 44 # group3 (d # rest)"
| "group3 ds = ds"

definition format_comma :: "int \<Rightarrow> pystr" where
  "format_comma i =
     (if i < 0 then 45 # rev (group3 (rev (digits (nat (- i)))))
      else rev (group3 (rev (digits (nat i)))))"

section \<open>Data transfer schemas (models.py)\<close>

text \<open>
  A product row. \<open>price\<close> and \<open>discount\<close> arrive as numbers or numeric strings
  (\<open>format_product_data\<close> tests for both), \<open>likes\<close> is a string-encoded integer.
\<close>

record product =
  prod_id :: int
  brand_name :: pystr
  product_name :: pystr
  image_url :: pystr
  price :: pyval
  discount :: pyval
  likes :: pystr
  reviews :: pystr
  is_favorite :: bool
  category :: pystr
  created_at :: int

record cart_item =
  cart_id :: int
  user_id :: int
  product_id :: int
  quantity :: int
  selected_options :: pystr
  cart_created_at :: int
  updated_at :: int

section \<open>Formatting layer\<close>

text \<open>A formatted row is the product row with the \<open>api_urls\<close> dictionary added.\<close>

record product_out = product +
  api_urls :: "(pystr \<times> pystr) list"

definition won :: pystr where
  "won = [50896]"

definition api_url :: "string \<Rightarrow> int \<Rightarrow> pystr" where
  "api_url action i = ustr ''http://localhost:8001/api/'' @ ustr action @ ustr ''/'' @ py_str i"

text \<open>The body of the loop of \<open>format_product_data\<close>, for one row.\<close>

definition format_product :: "product \<Rightarrow> py_exception + product_out" where
  "format_product p =
     (let product_id = prod_id p in
      case py_int (price p) of
        Inl e \<Rightarrow> Inl e
      | Inr price_int \<Rightarrow>
          (case py_int (discount p) of
             Inl e \<Rightarrow> Inl e
           | Inr discount_int \<Rightarrow>
               Inr (product.extend
                      (p\<lparr>price := PStr (format_comma price_int @ won),
                         discount := PStr (py_str discount_int @ ustr ''%'')\<rparr>)
                      (product_out.fields
                         [(ustr ''get'', api_url ''get'' product_id),
                          (ustr ''favorite'', api_url ''favorite'' product_id),
                          (ustr ''cart_add'', api_url ''cart-add'' product_id),
                          (ustr ''cart_remove'', api_url ''cart-remove'' product_id),
                          (ustr ''cart_update'', api_url ''cart-update'' product_id)]))))"

fun format_product_data :: "product list \<Rightarrow> py_exception + product_out list" where
  "format_product_data [] = Inr []"
| "format_product_data (p # ps) =
     (case format_product p of
        Inl e \<Rightarrow> Inl e
      | Inr q \<Rightarrow>
          (case format_product_data ps of
             Inl e \<Rightarrow> Inl e
           | Inr qs \<Rightarrow> Inr (q # qs)))"

section \<open>Response envelope builder\<close>

record header =
  content_type :: pystr
  server :: pystr
  date :: pystr

record 'a body =
  code :: pystr
  message :: pystr
  data :: 'a

record 'a response_data =
  header :: header
  body :: "'a body"

text \<open>
  \<open>create_standard_response\<close> builds this dictionary and serialises it; \<open>now\<close> is the
  text of \<open>datetime.now().isoformat()\<close>.
\<close>

definition create_standard_response :: "pystr \<Rightarrow> 'a \<Rightarrow> pystr \<Rightarrow> 'a response_data" where
  "create_standard_response now payload msg =
     \<lparr>header = \<lparr>content_type = ustr ''application/json; charset=utf-8'',
                 server = ustr ''FastAPI'',
                 date = now @ ustr ''Z''\<rparr>,
      body = \<lparr>code = ustr ''200'', message = msg, data = payload\<rparr>\<rparr>"

section \<open>Data access client\<close>

text \<open>
  Modelled from the spec: the hosted database service and its client library are not part
  of the repository. Following section 4.1 of the specification, a table is the list of
  its rows, \<open>equals\<close> and \<open>greaterThan\<close> keep the rows that satisfy the condition,
  \<open>orderBy\<close> sorts them, \<open>limit\<close> keeps a prefix, and every \<open>execute()\<close> is one request
  to the service, counted in \<open>calls\<close>. Transport failures and database constraints are
  outside the model.
\<close>

record db =
  products :: "product list"
  cart_items :: "cart_item list"
  calls :: nat

definition execute :: "db \<Rightarrow> db" where
  "execute d = d\<lparr>calls := calls d + 1\<rparr>"

datatype product_cond = Eq_id int

datatype cart_cond = Eq_user_id int | Eq_product_id int | Gt_quantity int

fun product_holds :: "product \<Rightarrow> product_cond \<Rightarrow> bool" where
  "product_holds r (Eq_id i) = (prod_id r = i)"

fun cart_holds :: "cart_item \<Rightarrow> cart_cond \<Rightarrow> bool" where
  "cart_holds r (Eq_user_id u) = (user_id r = u)"
| "cart_holds r (Eq_product_id p) = (product_id r = p)"
| "cart_holds r (Gt_quantity n) = (n < quantity r)"

definition product_matches :: "product_cond list \<Rightarrow> product \<Rightarrow> bool" where
  "product_matches cs r = list_all (product_holds r) cs"

definition cart_matches :: "cart_cond list \<Rightarrow> cart_item \<Rightarrow> bool" where
  "cart_matches cs r = list_all (cart_holds r) cs"

text \<open>\<open>table("products").select(...).eq(...).execute()\<close>\<close>

definition select_products :: "product_cond list \<Rightarrow> db \<Rightarrow> product list \<times> db" where
  "select_products cs d = (filter (product_matches cs) (products d), execute d)"

text \<open>\<open>table("products").update({"is_favorite": f, "likes": l}).eq(...).execute()\<close>\<close>

definition update_products :: "bool \<Rightarrow> pystr \<Rightarrow> product_cond list \<Rightarrow> db \<Rightarrow> db" where
  "update_products f l cs d =
     execute (d\<lparr>products :=
        map (\<lambda>r. if product_matches cs r then r\<lparr>is_favorite := f, likes := l\<rparr> else r)
          (products d)\<rparr>)"

text \<open>\<open>table("cart_items").select("*").eq(...).execute()\<close>\<close>

definition select_cart_items :: "cart_cond list \<Rightarrow> db \<Rightarrow> cart_item list \<times> db" where
  "select_cart_items cs d = (filter (cart_matches cs) (cart_items d), execute d)"

text \<open>\<open>table("cart_items").update({"quantity": q}).eq(...).execute()\<close>\<close>

definition update_cart_items :: "int \<Rightarrow> cart_cond list \<Rightarrow> db \<Rightarrow> db" where
  "update_cart_items q cs d =
     execute (d\<lparr>cart_items :=
        map (\<lambda>r. if cart_matches cs r then r\<lparr>quantity := q\<rparr> else r) (cart_items d)\<rparr>)"

text \<open>
  \<open>table("cart_items").insert({...}).execute()\<close>: the service generates the id and the
  two timestamps of the new row; they are the parameter \<open>gen\<close>.
\<close>

record generated =
  gen_id :: int
  gen_time :: int

definition insert_cart_item :: "generated \<Rightarrow> int \<Rightarrow> int \<Rightarrow> int \<Rightarrow> pystr \<Rightarrow> db \<Rightarrow> db" where
  "insert_cart_item gen u p q opts d =
     execute (d\<lparr>cart_items := cart_items d @
        [\<lparr>cart_id = gen_id gen, user_id = u, product_id = p, quantity = q,
          selected_options = opts, cart_created_at = gen_time gen,
          updated_at = gen_time gen\<rparr>]\<rparr>)"

text \<open>\<open>table("cart_items").delete().eq(...).execute()\<close>\<close>

definition delete_cart_items :: "cart_cond list \<Rightarrow> db \<Rightarrow> db" where
  "delete_cart_items cs d =
     execute (d\<lparr>cart_items := filter (\<lambda>r. \<not> cart_matches cs r) (cart_items d)\<rparr>)"

text \<open>
  Modelled from the spec: \<open>orderBy(field, descending)\<close> of the storage service
  (section 4.1). Rows are inserted one by one, each in front of the first row that is not
  greater; \<open>le\<close> is the order of the column. The service does not fix the order of
  rows with equal keys.
\<close>

fun insert_desc :: "('a \<Rightarrow> 'a \<Rightarrow> bool) \<Rightarrow> 'a \<Rightarrow> 'a list \<Rightarrow> 'a list" where
  "insert_desc le x [] = [x]"
| "insert_desc le x (y # ys) = (if le y x then x # y # ys else y # insert_desc le x ys)"

definition order_desc :: "('a \<Rightarrow> 'a \<Rightarrow> bool) \<Rightarrow> 'a list \<Rightarrow> 'a list" where
  "order_desc le rows = foldr (insert_desc le) rows []"

text \<open>
  Modelled from the spec: the order the storage service gives a text column such as
  \<open>likes\<close> (section 3: a string-encoded integer). Strings are compared code point by
  code point, a proper prefix is smaller.
\<close>

fun text_le :: "pystr \<Rightarrow> pystr \<Rightarrow> bool" where
  "text_le [] t = True"
| "text_le (a # s) [] = False"
| "text_le (a # s) (b # t) = (a < b \<or> (a = b \<and> text_le s t))"

section \<open>Route handlers\<close>

text \<open>
  What a handler raises: an \<open>HTTPException\<close> with its status code and detail, or another
  exception. The detail is a literal text or \<open>str(e)\<close> of the exception caught.
\<close>

datatype detail = Detail pystr | Detail_str py_exception

datatype raised = HTTPException nat detail | Exception py_exception

text \<open>\<open>except HTTPException: raise\<close> and \<open>except Exception as e: raise HTTPException(500, str(e))\<close>\<close>

fun reraise :: "raised \<Rightarrow> raised" where
  "reraise (HTTPException st dt) = HTTPException st dt"
| "reraise (Exception e) = HTTPException 500 (Detail_str e)"

definition msg_not_found :: pystr where
  "msg_not_found =
     [49345, 54408, 51012, 32, 52286, 51012, 32, 49688, 32, 50630, 49845, 45768, 45796]"

definition msg_favorite_on :: pystr where
  "msg_favorite_on =
     [51600, 44200, 52286, 44592, 44032, 32, 53664, 44544, 46104, 50632, 49845, 45768, 45796]"

definition msg_favorite_off :: pystr where
  "msg_favorite_off =
     [51600, 44200, 52286, 44592, 44032, 32, 54644, 51228, 46104, 50632, 49845, 45768, 45796]"

definition msg_cart_updated :: "int \<Rightarrow> pystr" where
  "msg_cart_updated n =
     [51109, 48148, 44396, 45768, 32, 49688, 47049, 51060, 32] @ py_str n @
     [44060, 47196, 32, 50629, 45936, 51060, 53944, 46104, 50632, 49845, 45768, 45796]"

definition msg_cart_added :: pystr where
  "msg_cart_added =
     [51109, 48148, 44396, 45768, 50640, 32, 52628, 44032, 46104, 50632, 49845, 45768, 45796]"

definition msg_cart_removed :: pystr where
  "msg_cart_removed =
     [51109, 48148, 44396, 45768, 50640, 49436, 32, 49325, 51228, 46104, 50632, 49845, 45768,
      45796]"

definition msg_quantity_changed :: "int \<Rightarrow> pystr" where
  "msg_quantity_changed n =
     [49688, 47049, 51060, 32] @ py_str n @
     [44060, 47196, 32, 48320, 44221, 46104, 50632, 49845, 45768, 45796]"

definition msg_get :: pystr where
  "msg_get =
     [49345, 54408, 32, 51221, 48372, 47484, 32, 51312, 54924, 54664, 49845, 45768, 45796]"

definition msg_unsupported :: "pystr \<Rightarrow> pystr" where
  "msg_unsupported action =
     [51648, 50896, 54616, 51648, 32, 50506, 45716, 32, 50529, 49496, 58, 32] @ action"

definition msg_empty_query :: pystr where
  "msg_empty_query =
     [44160, 49353, 50612, 44032, 32, 48708, 50612, 51080, 49845, 45768, 45796]"

subsection \<open>The unified endpoint\<close>

text \<open>The branch \<open>action == "favorite"\<close>.\<close>

definition favorite_action :: "int \<Rightarrow> db \<Rightarrow> (raised + pystr) \<times> db" where
  "favorite_action pid d =
     (let (current, d1) = select_products [Eq_id pid] d in
      case current of
        [] \<Rightarrow> (Inl (HTTPException 404 (Detail msg_not_found)), d1)
      | row # _ \<Rightarrow>
          (let current_favorite = is_favorite row in
           case py_int_of_str (if likes row = [] then ustr ''0'' else likes row) of
             Inl e \<Rightarrow> (Inl (Exception e), d1)
           | Inr current_likes \<Rightarrow>
               (let new_favorite = \<not> current_favorite;
                    new_likes = current_likes + (if new_favorite then 1 else - 1);
                    new_likes = max 0 new_likes;
                    d2 = update_products new_favorite (py_str new_likes) [Eq_id pid] d1
                in (Inr (if new_favorite then msg_favorite_on else msg_favorite_off), d2))))"

text \<open>The branch \<open>action == "cart-add"\<close>.\<close>

definition cart_add_action ::
  "generated \<Rightarrow> int \<Rightarrow> int \<Rightarrow> int \<Rightarrow> db \<Rightarrow> (raised + pystr) \<times> db" where
  "cart_add_action gen pid uid qty d =
     (let (existing, d1) = select_cart_items [Eq_user_id uid, Eq_product_id pid] d in
      case existing of
        row # _ \<Rightarrow>
          (let current_qty = quantity row;
               new_qty = current_qty + qty;
               d2 = update_cart_items new_qty [Eq_user_id uid, Eq_product_id pid] d1
           in (Inr (msg_cart_updated new_qty), d2))
      | [] \<Rightarrow>
          (let d2 = insert_cart_item gen uid pid qty [] d1
           in (Inr msg_cart_added, d2)))"

text \<open>The \<open>if\<close>/\<open>elif\<close> chain over \<open>action\<close>.\<close>

definition perform_action ::
  "generated \<Rightarrow> pystr \<Rightarrow> int \<Rightarrow> int \<Rightarrow> int \<Rightarrow> db \<Rightarrow> (raised + pystr) \<times> db" where
  "perform_action gen action pid uid qty d =
     (if action = ustr ''favorite'' then favorite_action pid d
      else if action = ustr ''cart-add'' then cart_add_action gen pid uid qty d
      else if action = ustr ''cart-remove'' then
        (Inr msg_cart_removed, delete_cart_items [Eq_user_id uid, Eq_product_id pid] d)
      else if action = ustr ''cart-update'' then
        (Inr (msg_quantity_changed qty),
         update_cart_items qty [Eq_user_id uid, Eq_product_id pid] d)
      else if action = ustr ''get'' then (Inr msg_get, d)
      else (Inl (HTTPException 400 (Detail (msg_unsupported action))), d))"

record unified_data =
  r_product :: product_out
  r_is_favorite :: bool
  r_in_cart :: bool
  r_cart_quantity :: int
  r_likes :: int

text \<open>The part of the handler after the branch: the consolidated response.\<close>

definition consolidated_response ::
  "pystr \<Rightarrow> int \<Rightarrow> int \<Rightarrow> pystr \<Rightarrow> db \<Rightarrow> (raised + unified_data response_data) \<times> db" where
  "consolidated_response now pid uid msg d =
     (let (product_rows, d1) = select_products [Eq_id pid] d in
      case product_rows of
        [] \<Rightarrow> (Inl (HTTPException 404 (Detail msg_not_found)), d1)
      | product # _ \<Rightarrow>
          (case format_product_data [product] of
             Inl e \<Rightarrow> (Inl (Exception e), d1)
           | Inr formatted_products \<Rightarrow>
               (let (cart_rows, d2) =
                      select_cart_items [Eq_user_id uid, Eq_product_id pid, Gt_quantity 0] d1;
                    in_cart = (0 < length cart_rows);
                    cart_quantity = (case cart_rows of [] \<Rightarrow> 0 | row # _ \<Rightarrow> quantity row)
                in case formatted_products of
                     [] \<Rightarrow> (Inl (Exception IndexError), d2)
                   | formatted # _ \<Rightarrow>
                       (case py_int_of_str (likes product) of
                          Inl e \<Rightarrow> (Inl (Exception e), d2)
                        | Inr likes_int \<Rightarrow>
                            (Inr (create_standard_response now
                                    \<lparr>r_product = formatted,
                                     r_is_favorite = is_favorite product,
                                     r_in_cart = in_cart,
                                     r_cart_quantity = cart_quantity,
                                     r_likes = likes_int\<rparr> msg), d2)))))"

text \<open>
  \<open>unified_product_api\<close>: \<open>gen\<close> are the values the service generates for an inserted
  row, \<open>now\<close> is the date of the response. The result is what the handler returns or
  raises, together with the storage after the call.
\<close>

definition unified_product_api ::
  "generated \<Rightarrow> pystr \<Rightarrow> pystr \<Rightarrow> int \<Rightarrow> int \<Rightarrow> int \<Rightarrow> db
     \<Rightarrow> (raised + unified_data response_data) \<times> db" where
  "unified_product_api gen now action pid uid qty d =
     (case perform_action gen action pid uid qty d of
        (Inl e, d1) \<Rightarrow> (Inl (reraise e), d1)
      | (Inr msg, d1) \<Rightarrow>
          (case consolidated_response now pid uid msg d1 of
             (Inl e, d2) \<Rightarrow> (Inl (reraise e), d2)
           | (Inr r, d2) \<Rightarrow> (Inr r, d2)))"

subsection \<open>Cart items\<close>

text \<open>
  Modelled from the spec: the embedded join of the storage service (section 4.1),
  \<open>select("*, products:product_id (*)")\<close>. Every cart row comes with the product row its
  \<open>product_id\<close> refers to, or with none. The rows are ordered by \<open>created_at\<close>,
  descending.
\<close>

definition select_cart_items_joined ::
  "cart_cond list \<Rightarrow> db \<Rightarrow> (cart_item \<times> product option) list \<times> db" where
  "select_cart_items_joined cs d =
     (map (\<lambda>r. (r, find (\<lambda>p. prod_id p = product_id r) (products d)))
        (order_desc (\<lambda>a b. cart_created_at a \<le> cart_created_at b)
           (filter (cart_matches cs) (cart_items d))),
      execute d)"

record cart_entry =
  e_cart_item_id :: int
  e_quantity :: int
  e_user_id :: int
  e_product :: product_out

text \<open>The loop over \<open>response.data\<close> in \<open>get_cart_items\<close>.\<close>

fun cart_entries :: "(cart_item \<times> product option) list \<Rightarrow> py_exception + cart_entry list" where
  "cart_entries [] = Inr []"
| "cart_entries ((item, None) # rest) = cart_entries rest"
| "cart_entries ((item, Some product) # rest) =
     (case format_product_data [product] of
        Inl e \<Rightarrow> Inl e
      | Inr formatted_products \<Rightarrow>
          (case formatted_products of
             [] \<Rightarrow> Inl IndexError
           | formatted # _ \<Rightarrow>
               (case cart_entries rest of
                  Inl e \<Rightarrow> Inl e
                | Inr entries \<Rightarrow>
                    Inr (\<lparr>e_cart_item_id = cart_id item, e_quantity = quantity item,
                          e_user_id = user_id item, e_product = formatted\<rparr> # entries))))"

text \<open>The query of \<open>get_cart_items\<close>: the user filter is added when \<open>user_id\<close> is truthy.\<close>

definition cart_items_query :: "int option \<Rightarrow> cart_cond list" where
  "cart_items_query user =
     [Gt_quantity 0] @
     (case user of
        None \<Rightarrow> []
      | Some u \<Rightarrow> (if u \<noteq> 0 then [Eq_user_id u] else []))"

definition get_cart_items ::
  "pystr \<Rightarrow> int option \<Rightarrow> db \<Rightarrow> (raised + cart_entry list response_data) \<times> db" where
  "get_cart_items now user d =
     (let (rows, d1) = select_cart_items_joined (cart_items_query user) d in
      case cart_entries rows of
        Inl e \<Rightarrow> (Inl (reraise (Exception e)), d1)
      | Inr entries \<Rightarrow> (Inr (create_standard_response now entries (ustr ''Success'')), d1))"

subsection \<open>Search\<close>

text \<open>
  \<open>search_products\<close>. The service evaluates the \<open>ilike\<close> filter on \<open>product_name\<close> and
  \<open>brand_name\<close>; \<open>ilike_rows q\<close> is the parameter giving the rows it selects, which are
  then ordered by \<open>created_at\<close>, descending.
\<close>

definition search_products ::
  "(pystr \<Rightarrow> product list \<Rightarrow> product list) \<Rightarrow> pystr \<Rightarrow> pystr \<Rightarrow> db
     \<Rightarrow> (raised + product_out list response_data) \<times> db" where
  "search_products ilike_rows now q0 d =
     (let q = py_strip q0 in
      if q = [] then (Inr (create_standard_response now [] msg_empty_query), d)
      else
        (let rows = order_desc (\<lambda>a b. created_at a \<le> created_at b) (ilike_rows q (products d));
             d1 = execute d
         in case format_product_data rows of
              Inl e \<Rightarrow> (Inl (reraise (Exception e)), d1)
            | Inr formatted_products \<Rightarrow>
                (Inr (create_standard_response now formatted_products (ustr ''Success'')), d1)))"

subsection \<open>Ranking\<close>

text \<open>
  \<open>table("products").select("*").order("likes", desc=True).limit(20).execute()\<close>:
  \<open>likes\<close> is a text column, so the rows are ordered as texts.
\<close>

definition select_products_ranking :: "db \<Rightarrow> product list \<times> db" where
  "select_products_ranking d =
     (take 20 (order_desc (\<lambda>a b. text_le (likes a) (likes b)) (products d)), execute d)"

definition get_products_ranking ::
  "pystr \<Rightarrow> db \<Rightarrow> (raised + product_out list response_data) \<times> db" where
  "get_products_ranking now d =
     (let (rows, d1) = select_products_ranking d in
      case format_product_data rows of
        Inl e \<Rightarrow> (Inl (reraise (Exception e)), d1)
      | Inr formatted_products \<Rightarrow>
          (Inr (create_standard_response now formatted_products (ustr ''Success'')), d1))"

section \<open>Sample data\<close>

definition sample_product :: product where
  "sample_product =
     \<lparr>prod_id = 3, brand_name = ustr ''Acme'', product_name = ustr ''Shirt'',
      image_url = ustr ''http://img/3.png'', price = PInt 15000, discount = PInt 10,
      likes = ustr ''0'', reviews = ustr ''12'', is_favorite = True,
      category = ustr ''top'', created_at = 100\<rparr>"

definition sample_cart_item :: cart_item where
  "sample_cart_item =
     \<lparr>cart_id = 1, user_id = 7, product_id = 3, quantity = 0, selected_options = [],
      cart_created_at = 50, updated_at = 60\<rparr>"

definition sample_db :: db where
  "sample_db = \<lparr>products = [sample_product], cart_items = [sample_cart_item], calls = 0\<rparr>"

definition empty_db :: db where
  "empty_db = \<lparr>products = [], cart_items = [], calls = 0\<rparr>"

definition sample_gen :: generated where
  "sample_gen = \<lparr>gen_id = 2, gen_time = 70\<rparr>"

text \<open>Two products with 9 and 10 likes.\<close>

definition nine_likes :: product where
  "nine_likes = sample_product\<lparr>prod_id := 2, likes := ustr ''9''\<rparr>"

definition ten_likes :: product where
  "ten_likes = sample_product\<lparr>prod_id := 1, likes := ustr ''10''\<rparr>"

definition ranking_db :: db where
  "ranking_db = \<lparr>products = [ten_likes, nine_likes], cart_items = [], calls = 0\<rparr>"

text \<open>A cart with rows of the users 7, 8 and 9; the row of user 9 has quantity 0.\<close>

definition two_user_db :: db where
  "two_user_db =
     \<lparr>products = [sample_product],
      cart_items =
        [\<lparr>cart_id = 10, user_id = 7, product_id = 3, quantity = 2, selected_options = [],
          cart_created_at = 50, updated_at = 50\<rparr>,
         \<lparr>cart_id = 11, user_id = 8, product_id = 3, quantity = 1, selected_options = [],
          cart_created_at = 60, updated_at = 60\<rparr>,
         \<lparr>cart_id = 12, user_id = 9, product_id = 3, quantity = 0, selected_options = [],
          cart_created_at = 70, updated_at = 70\<rparr>],
      calls = 0\<rparr>"

section \<open>Formatting and the envelope\<close>

lemma format_comma_15000: "format_comma 15000 = ustr ''15,000''"
  by (simp add: format_comma_def ustr_def digits.simps)

lemma py_str_10: "py_str 10 = ustr ''10''"
  by (simp add: py_str_def ustr_def digits.simps)

lemma py_int_15000: "v = PInt 15000 \<or> v = PFloat 15000 \<Longrightarrow> py_int v = Inr 15000"
  by (auto simp: py_int_def)

lemma py_int_10: "v = PInt 10 \<or> v = PFloat 10 \<Longrightarrow> py_int v = Inr 10"
  by (auto simp: py_int_def)

text \<open>
  Claim C7. \<open>format_product_data\<close> applied to a row whose price is the number 15000 and
  whose discount is the number 10 gives a row whose price is the string "15,000" followed
  by the currency sign U+C6D0, whose discount is the string "10%", and whose \<open>api_urls\<close>
  has exactly the five keys get, favorite, cart_add, cart_remove, cart_update, each URL
  ending in the id of the row; the other fields are the ones of the row.
\<close>

theorem format_product_data_15000_10:
  assumes "price p = PInt 15000 \<or> price p = PFloat 15000"
    and "discount p = PInt 10 \<or> discount p = PFloat 10"
  shows "\<exists>r. format_product_data [p] = Inr [r]
    \<and> price r = PStr (ustr ''15,000'' @ [50896])
    \<and> discount r = PStr (ustr ''10%'')
    \<and> map fst (api_urls r) =
        [ustr ''get'', ustr ''favorite'', ustr ''cart_add'', ustr ''cart_remove'',
         ustr ''cart_update'']
    \<and> map snd (api_urls r) =
        [ustr ''http://localhost:8001/api/get/'' @ py_str (prod_id p),
         ustr ''http://localhost:8001/api/favorite/'' @ py_str (prod_id p),
         ustr ''http://localhost:8001/api/cart-add/'' @ py_str (prod_id p),
         ustr ''http://localhost:8001/api/cart-remove/'' @ py_str (prod_id p),
         ustr ''http://localhost:8001/api/cart-update/'' @ py_str (prod_id p)]
    \<and> product.truncate r =
        p\<lparr>price := PStr (ustr ''15,000'' @ [50896]), discount := PStr (ustr ''10%'')\<rparr>"
  using py_int_15000 [OF assms(1)] py_int_10 [OF assms(2)]
  by (cases p) (simp add: format_product_def format_comma_15000 py_str_10 won_def api_url_def
      product.extend_def product.truncate_def product_out.fields_def ustr_def)

theorem format_product_data_15000_10_witness:
  "(price sample_product = PInt 15000 \<or> price sample_product = PFloat 15000)
   \<and> (discount sample_product = PInt 10 \<or> discount sample_product = PFloat 10)
   \<and> (\<exists>r. format_product_data [sample_product] = Inr [r]
    \<and> price r = PStr (ustr ''15,000'' @ [50896])
    \<and> discount r = PStr (ustr ''10%'')
    \<and> map fst (api_urls r) =
        [ustr ''get'', ustr ''favorite'', ustr ''cart_add'', ustr ''cart_remove'',
         ustr ''cart_update'']
    \<and> map snd (api_urls r) =
        [ustr ''http://localhost:8001/api/get/'' @ py_str (prod_id sample_product),
         ustr ''http://localhost:8001/api/favorite/'' @ py_str (prod_id sample_product),
         ustr ''http://localhost:8001/api/cart-add/'' @ py_str (prod_id sample_product),
         ustr ''http://localhost:8001/api/cart-remove/'' @ py_str (prod_id sample_product),
         ustr ''http://localhost:8001/api/cart-update/'' @ py_str (prod_id sample_product)]
    \<and> product.truncate r =
        sample_product\<lparr>price := PStr (ustr ''15,000'' @ [50896]),
          discount := PStr (ustr ''10%'')\<rparr>)"
proof -
  have p: "price sample_product = PInt 15000 \<or> price sample_product = PFloat 15000"
    by (simp add: sample_product_def)
  have d: "discount sample_product = PInt 10 \<or> discount sample_product = PFloat 10"
    by (simp add: sample_product_def)
  show ?thesis
    by (rule conjI [OF p conjI [OF d format_product_data_15000_10 [OF p d]]])
qed

text \<open>
  Claim C8. For every payload and every message, the body built by
  \<open>create_standard_response\<close> has the code "200".
\<close>

theorem create_standard_response_code:
  "code (body (create_standard_response now payload msg)) = ustr ''200''"
  by (simp add: create_standard_response_def)

theorem create_standard_response_code_witness:
  "code (body (create_standard_response (ustr ''2024-01-01T00:00:00'') (0::nat)
     (ustr ''Success''))) = [50, 48, 48]"
  using create_standard_response_code [of "ustr ''2024-01-01T00:00:00''" "0::nat"
      "ustr ''Success''"]
  by (simp add: ustr_def)

section \<open>Search and cart listing\<close>

lemma dropWhile_all: "list_all P xs \<Longrightarrow> dropWhile P xs = []"
  by (induction xs) auto

lemma py_strip_blank: "list_all py_isspace q \<Longrightarrow> py_strip q = []"
  by (simp add: py_strip_def dropWhile_all)

text \<open>
  Claim C6. For a query made of white space only (the empty query included),
  \<open>search_products\<close> returns the envelope of the empty list and leaves the storage
  untouched: no request is sent to the service.
\<close>

theorem search_products_blank:
  assumes "list_all py_isspace q"
  shows "\<exists>r. search_products ilike_rows now q d = (Inr r, d) \<and> data (body r) = []
           \<and> calls (snd (search_products ilike_rows now q d)) = calls d"
  using py_strip_blank [OF assms]
  by (simp add: search_products_def create_standard_response_def)

theorem search_products_blank_witness:
  "list_all py_isspace [32, 9, 12288]
   \<and> (\<exists>r. search_products (\<lambda>q rows. rows) [] [32, 9, 12288] sample_db = (Inr r, sample_db)
        \<and> data (body r) = [])
   \<and> calls (snd (search_products (\<lambda>q rows. rows) [] [32, 9, 12288] sample_db)) = 0"
proof -
  have h: "list_all py_isspace [32, 9, 12288]"
    by (simp add: py_isspace_def)
  have c: "calls sample_db = 0"
    by (simp add: sample_db_def)
  from search_products_blank [OF h, of "\<lambda>q rows. rows" "[]" sample_db] h c
  show ?thesis by auto
qed

section \<open>Ranking\<close>

lemma sample_product_formats:
  "format_product (sample_product\<lparr>prod_id := i, likes := l\<rparr>) =
     Inr (product.extend
            (sample_product\<lparr>prod_id := i, likes := l,
               price := PStr (ustr ''15,000'' @ won), discount := PStr (ustr ''10%'')\<rparr>)
            (product_out.fields
               [(ustr ''get'', api_url ''get'' i),
                (ustr ''favorite'', api_url ''favorite'' i),
                (ustr ''cart_add'', api_url ''cart-add'' i),
                (ustr ''cart_remove'', api_url ''cart-remove'' i),
                (ustr ''cart_update'', api_url ''cart-update'' i)]))"
  by (simp add: format_product_def sample_product_def py_int_def format_comma_15000 py_str_10
      ustr_def)

lemma ranking_rows:
  "fst (select_products_ranking ranking_db) = [nine_likes, ten_likes]"
  by (simp add: select_products_ranking_def ranking_db_def order_desc_def nine_likes_def
      ten_likes_def ustr_def)

text \<open>
  Claim C3. With one product of 10 likes (id 1) and one of 9 likes (id 2) stored,
  \<open>get_products_ranking\<close> lists the product with 9 likes first: the rows are ordered
  by the text of \<open>likes\<close>, not by the like count.
\<close>

theorem get_products_ranking_text_order:
  "map (\<lambda>r. (prod_id r, likes r)) (fst (select_products_ranking ranking_db)) =
     [(2, ustr ''9''), (1, ustr ''10'')]
   \<and> (\<exists>r. fst (get_products_ranking [] ranking_db) = Inr r
        \<and> map prod_id (data (body r)) = [2, 1]
        \<and> map likes (data (body r)) = [ustr ''9'', ustr ''10''])
   \<and> py_int_of_str (ustr ''9'') = Inr 9 \<and> py_int_of_str (ustr ''10'') = Inr 10"
proof -
  have a: "map (\<lambda>r. (prod_id r, likes r)) (fst (select_products_ranking ranking_db)) =
     [(2, ustr ''9''), (1, ustr ''10'')]"
    by (simp add: ranking_rows) (simp add: nine_likes_def ten_likes_def)
  have rows: "select_products_ranking ranking_db = ([nine_likes, ten_likes], execute ranking_db)"
    using ranking_rows by (simp add: select_products_ranking_def)
  have b: "\<exists>r. fst (get_products_ranking [] ranking_db) = Inr r
        \<and> map prod_id (data (body r)) = [2, 1]
        \<and> map likes (data (body r)) = [ustr ''9'', ustr ''10'']"
    by (simp add: get_products_ranking_def rows)
      (simp add: nine_likes_def ten_likes_def sample_product_formats
        create_standard_response_def product.extend_def)
  have c: "py_int_of_str (ustr ''9'') = Inr 9 \<and> py_int_of_str (ustr ''10'') = Inr 10"
    by (simp add: py_int_of_str_def int_strip_def int_isspace_def parse_unsigned_def
        digit_val_def ustr_def)
  from a b c show ?thesis by (intro conjI) simp_all
qed

section \<open>Cart listing\<close>

lemma cart_matches_gt0: "cart_matches [Gt_quantity 0] = (\<lambda>r. 0 < quantity r)"
  by (simp add: cart_matches_def fun_eq_iff)

lemma cart_matches_gt0_user:
  "cart_matches [Gt_quantity 0, Eq_user_id u] = (\<lambda>r. 0 < quantity r \<and> user_id r = u)"
  by (simp add: cart_matches_def fun_eq_iff)

lemma set_insert_desc: "set (insert_desc le x ys) = insert x (set ys)"
  by (induction ys) auto

lemma set_order_desc: "set (order_desc le xs) = set xs"
  unfolding order_desc_def by (induction xs) (simp_all add: set_insert_desc)

lemma cart_entries_rows:
  "cart_entries rows = Inr es \<Longrightarrow>
     list_all2 (\<lambda>e (r, po). \<exists>p. po = Some p \<and> format_product p = Inr (e_product e)
                  \<and> e_cart_item_id e = cart_id r \<and> e_quantity e = quantity r
                  \<and> e_user_id e = user_id r)
       es (filter (\<lambda>(r, po). po \<noteq> None) rows)"
proof (induction rows arbitrary: es rule: cart_entries.induct)
  case 1
  then show ?case by simp
next
  case (2 item rest)
  then show ?case by simp
next
  case (3 item product rest)
  from "3.prems" obtain f where f: "format_product product = Inr f"
    by (auto split: sum.splits)
  with "3.prems" obtain es' where es': "cart_entries rest = Inr es'"
    and es: "es = \<lparr>e_cart_item_id = cart_id item, e_quantity = quantity item,
                    e_user_id = user_id item, e_product = f\<rparr> # es'"
    by (auto split: sum.splits)
  from f have "format_product_data [product] = Inr [f]" by simp
  from "3.IH" [OF this _ es'] have "list_all2 (\<lambda>e (r, po). \<exists>p. po = Some p
      \<and> format_product p = Inr (e_product e)
      \<and> e_cart_item_id e = cart_id r \<and> e_quantity e = quantity r
      \<and> e_user_id e = user_id r) es' (filter (\<lambda>(r, po). po \<noteq> None) rest)"
    by simp
  with f es show ?case by simp
qed

lemma cart_entries_total:
  "\<forall>(r, po) \<in> set rows. \<forall>p. po = Some p \<longrightarrow> (\<exists>f. format_product p = Inr f) \<Longrightarrow>
     \<exists>es. cart_entries rows = Inr es"
proof (induction rows rule: cart_entries.induct)
  case 1
  then show ?case by simp
next
  case (2 item rest)
  then show ?case by simp
next
  case (3 item product rest)
  from "3.prems" obtain f where f: "format_product product = Inr f" by auto
  then have d: "format_product_data [product] = Inr [f]" by simp
  from "3.prems" have "\<forall>(r, po) \<in> set rest. \<forall>p. po = Some p \<longrightarrow> (\<exists>f. format_product p = Inr f)"
    by simp
  from "3.IH" [OF d _ this] obtain es where "cart_entries rest = Inr es" by auto
  with f show ?case by simp
qed

lemma get_cart_items_Inr:
  assumes "get_cart_items now user d = (Inr resp, d')"
  shows "cart_entries (fst (select_cart_items_joined (cart_items_query user) d)) =
           Inr (data (body resp))"
  using assms
  by (auto simp: get_cart_items_def create_standard_response_def
      split: prod.splits sum.splits)

lemma filter_joined:
  "filter (\<lambda>(r, po). po \<noteq> None) (map (\<lambda>r. (r, g r)) xs) =
     map (\<lambda>r. (r, g r)) (filter (\<lambda>r. g r \<noteq> None) xs)"
  by (induction xs) auto

lemma list_all2_list_all:
  assumes "list_all2 Q es rows" and "\<And>e x. x \<in> set rows \<Longrightarrow> Q e x \<Longrightarrow> S e"
  shows "list_all S es"
  using assms by (induction rule: list_all2_induct) auto

text \<open>
  Claim C10. \<open>get_cart_items\<close> with \<open>user_id = 0\<close> gives what the call without
  \<open>user_id\<close> gives. When it returns a response, its entries are, in the order of the
  query (newest first), the cart rows of every user whose quantity is positive and whose
  product is stored, each with its id, quantity, user and formatted product; it returns a
  response whenever the products of those rows can be formatted. With a \<open>user_id\<close> other
  than 0 all entries belong to that user.
\<close>

theorem get_cart_items_user_zero:
  "get_cart_items now (Some 0) d = get_cart_items now None d
   \<and> (get_cart_items now (Some 0) d = (Inr resp, d') \<longrightarrow>
        list_all2 (\<lambda>e r. \<exists>p. find (\<lambda>p. prod_id p = product_id r) (products d) = Some p
                     \<and> format_product p = Inr (e_product e)
                     \<and> e_cart_item_id e = cart_id r \<and> e_quantity e = quantity r
                     \<and> e_user_id e = user_id r)
          (data (body resp))
          (filter (\<lambda>r. find (\<lambda>p. prod_id p = product_id r) (products d) \<noteq> None)
             (order_desc (\<lambda>a b. cart_created_at a \<le> cart_created_at b)
                (filter (\<lambda>r. 0 < quantity r) (cart_items d)))))
   \<and> ((\<forall>r \<in> set (cart_items d). 0 < quantity r \<longrightarrow>
          (\<forall>p. find (\<lambda>p. prod_id p = product_id r) (products d) = Some p \<longrightarrow>
             (\<exists>f. format_product p = Inr f))) \<longrightarrow>
        (\<exists>r0. get_cart_items now (Some 0) d = (Inr r0, execute d)))
   \<and> (u \<noteq> 0 \<and> get_cart_items now (Some u) d = (Inr resp_u, d_u) \<longrightarrow>
        list_all (\<lambda>e. e_user_id e = u) (data (body resp_u)))"
proof -
  let ?J = "\<lambda>r. (r, find (\<lambda>p. prod_id p = product_id r) (products d))"
  let ?le = "\<lambda>a b. cart_created_at a \<le> cart_created_at b"
  have rows0: "fst (select_cart_items_joined (cart_items_query (Some 0)) d) =
      map ?J (order_desc ?le (filter (\<lambda>r. 0 < quantity r) (cart_items d)))"
    by (simp add: cart_items_query_def select_cart_items_joined_def cart_matches_gt0)
  have 1: "get_cart_items now (Some 0) d = get_cart_items now None d"
    by (simp add: get_cart_items_def cart_items_query_def)
  have 2: "get_cart_items now (Some 0) d = (Inr resp, d') \<longrightarrow>
        list_all2 (\<lambda>e r. \<exists>p. find (\<lambda>p. prod_id p = product_id r) (products d) = Some p
                     \<and> format_product p = Inr (e_product e)
                     \<and> e_cart_item_id e = cart_id r \<and> e_quantity e = quantity r
                     \<and> e_user_id e = user_id r)
          (data (body resp))
          (filter (\<lambda>r. find (\<lambda>p. prod_id p = product_id r) (products d) \<noteq> None)
             (order_desc (\<lambda>a b. cart_created_at a \<le> cart_created_at b)
                (filter (\<lambda>r. 0 < quantity r) (cart_items d))))"
  proof
    assume "get_cart_items now (Some 0) d = (Inr resp, d')"
    from get_cart_items_Inr [OF this]
    have "cart_entries (map ?J (order_desc ?le (filter (\<lambda>r. 0 < quantity r) (cart_items d)))) =
        Inr (data (body resp))"
      by (simp only: rows0)
    from cart_entries_rows [OF this]
    show "list_all2 (\<lambda>e r. \<exists>p. find (\<lambda>p. prod_id p = product_id r) (products d) = Some p
                     \<and> format_product p = Inr (e_product e)
                     \<and> e_cart_item_id e = cart_id r \<and> e_quantity e = quantity r
                     \<and> e_user_id e = user_id r)
          (data (body resp))
          (filter (\<lambda>r. find (\<lambda>p. prod_id p = product_id r) (products d) \<noteq> None)
             (order_desc (\<lambda>a b. cart_created_at a \<le> cart_created_at b)
                (filter (\<lambda>r. 0 < quantity r) (cart_items d))))"
      unfolding filter_joined list_all2_map2 by simp
  qed
  have 3: "(\<forall>r \<in> set (cart_items d). 0 < quantity r \<longrightarrow>
          (\<forall>p. find (\<lambda>p. prod_id p = product_id r) (products d) = Some p \<longrightarrow>
             (\<exists>f. format_product p = Inr f))) \<longrightarrow>
        (\<exists>r0. get_cart_items now (Some 0) d = (Inr r0, execute d))"
  proof
    assume a: "\<forall>r \<in> set (cart_items d). 0 < quantity r \<longrightarrow>
          (\<forall>p. find (\<lambda>p. prod_id p = product_id r) (products d) = Some p \<longrightarrow>
             (\<exists>f. format_product p = Inr f))"
    have "\<forall>(r, po) \<in> set (map ?J (order_desc ?le
        (filter (\<lambda>r. 0 < quantity r) (cart_items d)))).
        \<forall>p. po = Some p \<longrightarrow> (\<exists>f. format_product p = Inr f)"
    proof (clarify)
      fix r po p
      assume m: "(r, Some p) \<in> set (map ?J (order_desc ?le
        (filter (\<lambda>r. 0 < quantity r) (cart_items d))))"
      then have "r \<in> set (cart_items d)" and "0 < quantity r"
        and "find (\<lambda>p. prod_id p = product_id r) (products d) = Some p"
        by (auto simp: set_order_desc)
      with a show "\<exists>f. format_product p = Inr f" by blast
    qed
    from cart_entries_total [OF this] obtain es where
      "cart_entries (map ?J (order_desc ?le
        (filter (\<lambda>r. 0 < quantity r) (cart_items d)))) = Inr es" ..
    then have "cart_entries (fst (select_cart_items_joined (cart_items_query (Some 0)) d)) =
        Inr es"
      by (simp only: rows0)
    then show "\<exists>r0. get_cart_items now (Some 0) d = (Inr r0, execute d)"
      by (simp add: get_cart_items_def select_cart_items_joined_def)
  qed
  have 4: "u \<noteq> 0 \<and> get_cart_items now (Some u) d = (Inr resp_u, d_u) \<longrightarrow>
        list_all (\<lambda>e. e_user_id e = u) (data (body resp_u))"
  proof (rule impI, elim conjE)
    assume u: "u \<noteq> 0" and g: "get_cart_items now (Some u) d = (Inr resp_u, d_u)"
    let ?rows = "map ?J (order_desc ?le
        (filter (\<lambda>r. 0 < quantity r \<and> user_id r = u) (cart_items d)))"
    have r: "fst (select_cart_items_joined (cart_items_query (Some u)) d) = ?rows"
      using u
      by (simp add: cart_items_query_def select_cart_items_joined_def cart_matches_gt0_user)
    from get_cart_items_Inr [OF g] have "cart_entries ?rows = Inr (data (body resp_u))"
      by (simp only: r)
    from cart_entries_rows [OF this] show "list_all (\<lambda>e. e_user_id e = u) (data (body resp_u))"
    proof (rule list_all2_list_all)
      fix e :: cart_entry and x :: "cart_item \<times> product option"
      assume "x \<in> set (filter (\<lambda>(r, po). po \<noteq> None) ?rows)"
      then have "user_id (fst x) = u"
        by (auto simp: set_order_desc)
      moreover assume "case x of (r, po) \<Rightarrow> \<exists>p. po = Some p
          \<and> format_product p = Inr (e_product e)
          \<and> e_cart_item_id e = cart_id r \<and> e_quantity e = quantity r
          \<and> e_user_id e = user_id r"
      ultimately show "e_user_id e = u"
        by (cases x) auto
    qed
  qed
  show ?thesis
    by (rule conjI [OF 1 conjI [OF 2 conjI [OF 3 4]]])
qed

theorem get_cart_items_user_zero_witness:
  "\<exists>resp resp7.
      get_cart_items [] (Some 0) two_user_db = (Inr resp, execute two_user_db)
    \<and> get_cart_items [] None two_user_db = (Inr resp, execute two_user_db)
    \<and> map e_cart_item_id (data (body resp)) = [11, 10]
    \<and> map e_user_id (data (body resp)) = [8, 7]
    \<and> map e_quantity (data (body resp)) = [1, 2]
    \<and> get_cart_items [] (Some 7) two_user_db = (Inr resp7, execute two_user_db)
    \<and> list_all (\<lambda>e. e_user_id e = 7) (data (body resp7))
    \<and> length (data (body resp7)) = 1"
proof -
  let ?find = "\<lambda>r. find (\<lambda>p. prod_id p = product_id r) (products two_user_db)"
  obtain f where f: "format_product sample_product = Inr f"
    using sample_product_formats [where i = 3 and l = "ustr ''0''"]
    by (simp add: sample_product_def)
  have i: "prod_id sample_product = 3"
    by (simp add: sample_product_def)
  have prem: "\<forall>r \<in> set (cart_items two_user_db). 0 < quantity r \<longrightarrow>
      (\<forall>p. ?find r = Some p \<longrightarrow> (\<exists>f. format_product p = Inr f))"
    using f by (simp add: two_user_db_def i)
  note t = get_cart_items_user_zero [where d = two_user_db and now = "[]" and u = 7]
  from t [THEN conjunct2, THEN conjunct2, THEN conjunct1, THEN mp, OF prem]
  obtain resp where
    r: "get_cart_items [] (Some 0) two_user_db = (Inr resp, execute two_user_db)" ..
  from t [THEN conjunct1] r
  have n: "get_cart_items [] None two_user_db = (Inr resp, execute two_user_db)"
    by simp
  have rows: "filter (\<lambda>r. ?find r \<noteq> None)
      (order_desc (\<lambda>a b. cart_created_at a \<le> cart_created_at b)
         (filter (\<lambda>r. 0 < quantity r) (cart_items two_user_db))) =
      [\<lparr>cart_id = 11, user_id = 8, product_id = 3, quantity = 1, selected_options = [],
         cart_created_at = 60, updated_at = 60\<rparr>,
       \<lparr>cart_id = 10, user_id = 7, product_id = 3, quantity = 2, selected_options = [],
         cart_created_at = 50, updated_at = 50\<rparr>]"
    by (simp add: two_user_db_def order_desc_def i)
  from t [THEN conjunct2, THEN conjunct1, THEN mp, OF r]
  have m: "map e_cart_item_id (data (body resp)) = [11, 10]
      \<and> map e_user_id (data (body resp)) = [8, 7]
      \<and> map e_quantity (data (body resp)) = [1, 2]"
    unfolding rows by (auto simp: list_all2_Cons2)
  have g7: "get_cart_items [] (Some 7) two_user_db =
      (Inr (create_standard_response []
              [\<lparr>e_cart_item_id = 10, e_quantity = 2, e_user_id = 7, e_product = f\<rparr>]
              (ustr ''Success'')), execute two_user_db)"
    by (simp add: get_cart_items_def cart_items_query_def select_cart_items_joined_def
        cart_matches_def two_user_db_def order_desc_def i f)
  let ?r7 = "create_standard_response []
              [\<lparr>e_cart_item_id = 10, e_quantity = 2, e_user_id = 7, e_product = f\<rparr>]
              (ustr ''Success'')"
  have u7: "(7::int) \<noteq> 0 \<and> get_cart_items [] (Some 7) two_user_db =
      (Inr ?r7, execute two_user_db)"
    using g7 by simp
  from t [THEN conjunct2, THEN conjunct2, THEN conjunct2, THEN mp, OF u7]
  have a7: "list_all (\<lambda>e. e_user_id e = 7) (data (body ?r7))" .
  have l7: "length (data (body ?r7)) = 1"
    by (simp add: create_standard_response_def)
  from r n m g7 a7 l7 show ?thesis
    by (intro exI [of _ resp] exI [of _ ?r7] conjI) simp_all
qed

section \<open>The unified endpoint\<close>

lemma unified_Inr:
  assumes "unified_product_api gen now action pid uid qty d = (Inr resp, d')"
  obtains msg d1 where "perform_action gen action pid uid qty d = (Inr msg, d1)"
    and "consolidated_response now pid uid msg d1 = (Inr resp, d')"
  using assms
  by (auto simp: unified_product_api_def split: prod.splits sum.splits)

lemma consolidated_cart:
  assumes "consolidated_response now pid uid msg d = (Inr resp, d')"
  shows "cart_items d' = cart_items d"
    and "r_in_cart (data (body resp)) =
           (filter (cart_matches [Eq_user_id uid, Eq_product_id pid, Gt_quantity 0])
              (cart_items d) \<noteq> [])"
    and "r_cart_quantity (data (body resp)) =
           (case filter (cart_matches [Eq_user_id uid, Eq_product_id pid, Gt_quantity 0])
              (cart_items d) of [] \<Rightarrow> 0 | row # _ \<Rightarrow> quantity row)"
  using assms
  by (auto simp: consolidated_response_def select_products_def select_cart_items_def
      execute_def create_standard_response_def split: list.splits sum.splits)

lemma cart_matches_pair_gt0:
  "cart_matches [Eq_user_id uid, Eq_product_id pid, Gt_quantity 0] r \<longleftrightarrow>
     user_id r = uid \<and> product_id r = pid \<and> 0 < quantity r"
  by (simp add: cart_matches_def)

lemma cart_matches_pair:
  "cart_matches [Eq_user_id uid, Eq_product_id pid] r \<longleftrightarrow>
     user_id r = uid \<and> product_id r = pid"
  by (simp add: cart_matches_def)

lemma filter_head_holds: "filter P xs = y # ys \<Longrightarrow> P y"
  by (metis filter_eq_ConsD)

text \<open>
  Claim C9. In a response of the unified endpoint, \<open>in_cart\<close> is true exactly when
  \<open>cart_quantity\<close> is positive, and exactly when the cart holds a row of the user and the
  product with a positive quantity; if every such row has quantity 0 (or there is none),
  \<open>in_cart\<close> is false and \<open>cart_quantity\<close> is 0.
\<close>

theorem unified_in_cart_iff_quantity:
  assumes "unified_product_api gen now action pid uid qty d = (Inr resp, d')"
  shows "(r_in_cart (data (body resp)) \<longleftrightarrow> 0 < r_cart_quantity (data (body resp)))
    \<and> (r_in_cart (data (body resp)) \<longleftrightarrow>
         (\<exists>row \<in> set (cart_items d').
            user_id row = uid \<and> product_id row = pid \<and> 0 < quantity row))
    \<and> ((\<forall>row \<in> set (cart_items d').
            user_id row = uid \<and> product_id row = pid \<longrightarrow> quantity row = 0)
         \<longrightarrow> \<not> r_in_cart (data (body resp)) \<and> r_cart_quantity (data (body resp)) = 0)"
proof -
  from assms obtain msg d1 where
    c: "consolidated_response now pid uid msg d1 = (Inr resp, d')"
    by (rule unified_Inr)
  let ?P = "cart_matches [Eq_user_id uid, Eq_product_id pid, Gt_quantity 0]"
  let ?rows = "filter ?P (cart_items d1)"
  note items = consolidated_cart(1) [OF c]
  note in_cart = consolidated_cart(2) [OF c]
  note quantity = consolidated_cart(3) [OF c]
  have 1: "r_in_cart (data (body resp)) \<longleftrightarrow> 0 < r_cart_quantity (data (body resp))"
  proof (cases ?rows)
    case Nil
    then show ?thesis by (simp add: in_cart quantity)
  next
    case (Cons row rest)
    then have "?P row" by (rule filter_head_holds)
    with Cons show ?thesis by (simp add: in_cart quantity cart_matches_pair_gt0)
  qed
  have 2: "r_in_cart (data (body resp)) \<longleftrightarrow>
         (\<exists>row \<in> set (cart_items d').
            user_id row = uid \<and> product_id row = pid \<and> 0 < quantity row)"
    by (auto simp: in_cart items filter_empty_conv cart_matches_pair_gt0)
  have 3: "(\<forall>row \<in> set (cart_items d').
            user_id row = uid \<and> product_id row = pid \<longrightarrow> quantity row = 0)
         \<longrightarrow> \<not> r_in_cart (data (body resp)) \<and> r_cart_quantity (data (body resp)) = 0"
  proof
    assume "\<forall>row \<in> set (cart_items d').
            user_id row = uid \<and> product_id row = pid \<longrightarrow> quantity row = 0"
    with 2 have n: "\<not> r_in_cart (data (body resp))" by auto
    with in_cart have "?rows = []" by simp
    with quantity have "r_cart_quantity (data (body resp)) = 0" by simp
    with n show "\<not> r_in_cart (data (body resp)) \<and> r_cart_quantity (data (body resp)) = 0"
      by simp
  qed
  from 1 2 3 show ?thesis by (intro conjI)
qed

lemma py_int_of_str_0: "py_int_of_str (ustr ''0'') = Inr 0"
  by (simp add: py_int_of_str_def int_strip_def int_isspace_def parse_unsigned_def
      digit_val_def ustr_def)

lemma sample_get:
  "\<exists>resp. unified_product_api sample_gen [] (ustr ''get'') 3 7 1 sample_db =
     (Inr resp, execute (execute sample_db))"
proof -
  have a: "perform_action sample_gen (ustr ''get'') 3 7 1 sample_db = (Inr msg_get, sample_db)"
    by (simp add: perform_action_def ustr_def)
  have p: "select_products [Eq_id 3] sample_db = ([sample_product], execute sample_db)"
    by (simp add: select_products_def sample_db_def product_matches_def sample_product_def)
  have f: "\<exists>r. format_product sample_product = Inr r"
    using sample_product_formats [where i = 3 and l = "ustr ''0''"]
    by (simp add: sample_product_def)
  have l: "py_int_of_str (likes sample_product) = Inr 0"
    using py_int_of_str_0 by (simp add: sample_product_def)
  from f obtain r where r: "format_product sample_product = Inr r" ..
  have "\<exists>resp. consolidated_response [] 3 7 msg_get sample_db =
     (Inr resp, execute (execute sample_db))"
    by (simp add: consolidated_response_def p r l select_cart_items_def)
  then show ?thesis
    by (auto simp: unified_product_api_def a)
qed

theorem unified_in_cart_iff_quantity_witness:
  "\<exists>resp. unified_product_api sample_gen [] (ustr ''get'') 3 7 1 sample_db =
      (Inr resp, execute (execute sample_db))
    \<and> \<not> r_in_cart (data (body resp)) \<and> r_cart_quantity (data (body resp)) = 0
    \<and> \<not> 0 < r_cart_quantity (data (body resp))"
proof -
  from sample_get obtain resp where
    r: "unified_product_api sample_gen [] (ustr ''get'') 3 7 1 sample_db =
      (Inr resp, execute (execute sample_db))" ..
  have z: "\<forall>row \<in> set (cart_items (execute (execute sample_db))).
            user_id row = 7 \<and> product_id row = 3 \<longrightarrow> quantity row = 0"
    by (simp add: execute_def sample_db_def sample_cart_item_def)
  from unified_in_cart_iff_quantity [OF r] z
  have "\<not> r_in_cart (data (body resp)) \<and> r_cart_quantity (data (body resp)) = 0"
    by blast
  with r show ?thesis by auto
qed

section \<open>\<open>int(str(n))\<close>\<close>

lemma digits_range: "c \<in> set (digits n) \<Longrightarrow> 48 \<le> c \<and> c \<le> 57"
proof (induction n arbitrary: c rule: digits.induct)
  case (1 n)
  show ?case
  proof (cases "n < 10")
    case True
    with "1.prems" show ?thesis by (simp add: digits.simps [of n])
  next
    case False
    with "1.prems" have "c \<in> set (digits (n div 10)) \<or> c = 48 + n mod 10"
      by (auto simp: digits.simps [of n])
    then show ?thesis
    proof
      assume "c \<in> set (digits (n div 10))"
      with False show ?thesis using "1.IH" by blast
    next
      assume "c = 48 + n mod 10"
      then show ?thesis by simp
    qed
  qed
qed

lemma digits_not_Nil: "digits n \<noteq> []"
  by (simp add: digits.simps [of n])

lemma parse_digits_snoc:
  assumes "\<forall>c \<in> set ds. 48 \<le> c \<and> c \<le> 57" and "d < 10"
  shows "parse_digits acc (ds @ [48 + d]) =
           map_option (\<lambda>a. a * 10 + int d) (parse_digits acc ds)"
  using assms
proof (induction ds arbitrary: acc)
  case Nil
  then show ?case by (simp add: digit_val_def)
next
  case (Cons c cs)
  then have c: "48 \<le> c" "c \<le> 57" and cs: "\<forall>c \<in> set cs. 48 \<le> c \<and> c \<le> 57"
    by simp_all
  from c have "c \<noteq> 95" by simp
  with c Cons.IH [OF cs \<open>d < 10\<close>] show ?case
    by (simp add: digit_val_def)
qed

lemma parse_unsigned_snoc:
  assumes "ds \<noteq> []" and "\<forall>c \<in> set ds. 48 \<le> c \<and> c \<le> 57" and "d < 10"
  shows "parse_unsigned (ds @ [48 + d]) =
           map_option (\<lambda>a. a * 10 + int d) (parse_unsigned ds)"
proof -
  from assms(1) obtain c cs where ds: "ds = c # cs" by (cases ds) auto
  with assms(2) have c: "48 \<le> c \<and> c \<le> 57" and cs: "\<forall>c \<in> set cs. 48 \<le> c \<and> c \<le> 57"
    by simp_all
  from c parse_digits_snoc [OF cs assms(3)] show ?thesis
    by (simp add: ds parse_unsigned_def digit_val_def)
qed

lemma parse_unsigned_digits: "parse_unsigned (digits n) = Some (int n)"
proof (induction n rule: digits.induct)
  case (1 n)
  show ?case
  proof (cases "n < 10")
    case True
    then show ?thesis
      by (simp add: digits.simps [of n] parse_unsigned_def digit_val_def)
  next
    case False
    have r: "\<forall>c \<in> set (digits (n div 10)). 48 \<le> c \<and> c \<le> 57"
      using digits_range by blast
    have "parse_unsigned (digits n) =
        parse_unsigned (digits (n div 10) @ [48 + n mod 10])"
      using False by (simp add: digits.simps [of n])
    also have "\<dots> = map_option (\<lambda>a. a * 10 + int (n mod 10))
        (parse_unsigned (digits (n div 10)))"
      by (rule parse_unsigned_snoc [OF digits_not_Nil r]) simp
    also have "\<dots> = Some (int (n div 10) * 10 + int (n mod 10))"
      using "1.IH" [OF False] by simp
    also have "int (n div 10) * 10 + int (n mod 10) = int n"
      by (simp add: zdiv_int zmod_int)
    finally show ?thesis .
  qed
qed

lemma int_strip_id: "\<forall>c \<in> set s. \<not> int_isspace c \<Longrightarrow> int_strip s = s"
proof -
  have d: "dropWhile P xs = xs" if "\<forall>x \<in> set xs. \<not> P x" for P and xs :: "nat list"
    using that by (cases xs) auto
  assume a: "\<forall>c \<in> set s. \<not> int_isspace c"
  then have "dropWhile int_isspace s = s" by (rule d)
  moreover from a have "dropWhile int_isspace (rev s) = rev s" by (intro d) simp
  ultimately show ?thesis by (simp add: int_strip_def)
qed

lemma digit_not_space: "48 \<le> c \<and> c \<le> 57 \<Longrightarrow> \<not> int_isspace c"
  by (auto simp: int_isspace_def)

lemma py_int_of_py_str: "py_int_of_str (py_str i) = Inr i"
proof (cases "i < 0")
  case True
  have "\<not> int_isspace 45"
    by (simp add: int_isspace_def)
  moreover have "\<forall>c \<in> set (digits (nat (- i))). \<not> int_isspace c"
    using digits_range digit_not_space by blast
  ultimately have "\<forall>c \<in> set (45 # digits (nat (- i))). \<not> int_isspace c"
    by simp
  then have "int_strip (45 # digits (nat (- i))) = 45 # digits (nat (- i))"
    by (rule int_strip_id)
  with True show ?thesis
    by (simp add: py_str_def py_int_of_str_def parse_unsigned_digits)
next
  case False
  obtain c cs where ds: "digits (nat i) = c # cs"
    using digits_not_Nil [of "nat i"] by (cases "digits (nat i)") auto
  then have "c \<in> set (digits (nat i))" by simp
  then have c: "48 \<le> c \<and> c \<le> 57" by (rule digits_range)
  have "\<forall>c \<in> set (digits (nat i)). \<not> int_isspace c"
    using digits_range digit_not_space by blast
  then have s: "int_strip (digits (nat i)) = c # cs"
    using ds by (simp add: int_strip_id)
  from parse_unsigned_digits [of "nat i"] have "parse_unsigned (c # cs) = Some (int (nat i))"
    by (simp add: ds)
  with False c s show ?thesis
    by (simp add: py_str_def py_int_of_str_def)
qed

text \<open>
  Three values of \<open>int\<close> at the edge of its white space and digit rules: a leading
  U+001C is not skipped, a no-break space is, and a fullwidth digit counts as its digit.
\<close>

lemma py_int_of_str_separator: "py_int_of_str [28, 53] = Inl ValueError"
  by (simp add: py_int_of_str_def int_strip_def int_isspace_def parse_unsigned_def
      digit_val_def)

lemma py_int_of_str_no_break_space: "py_int_of_str [160, 53, 32] = Inr 5"
  by (simp add: py_int_of_str_def int_strip_def int_isspace_def py_isspace_def
      parse_unsigned_def digit_val_def)

lemma py_int_of_str_fullwidth: "py_int_of_str [65301, 95, 54] = Inr 56"
  by (simp add: py_int_of_str_def int_strip_def int_isspace_def py_isspace_def
      parse_unsigned_def digit_val_def unicode_decimal_def decimal_starts_def)

section \<open>Storage effects of the unified endpoint\<close>

lemma consolidated_tables:
  "products (snd (consolidated_response now pid uid msg d)) = products d
   \<and> cart_items (snd (consolidated_response now pid uid msg d)) = cart_items d"
  by (simp add: consolidated_response_def select_products_def select_cart_items_def
      execute_def split: list.split sum.split)

lemma unified_tables:
  "products (snd (unified_product_api gen now action pid uid qty d)) =
     products (snd (perform_action gen action pid uid qty d))
   \<and> cart_items (snd (unified_product_api gen now action pid uid qty d)) =
     cart_items (snd (perform_action gen action pid uid qty d))"
proof (cases "perform_action gen action pid uid qty d")
  case (Pair res d1)
  show ?thesis
  proof (cases res)
    case (Inl e)
    with Pair show ?thesis by (simp add: unified_product_api_def)
  next
    case (Inr msg)
    obtain res2 d2 where c: "consolidated_response now pid uid msg d1 = (res2, d2)"
      by (cases "consolidated_response now pid uid msg d1")
    with consolidated_tables [of now pid uid msg d1]
    have "products d2 = products d1 \<and> cart_items d2 = cart_items d1" by simp
    with Pair Inr c show ?thesis
      by (cases res2) (simp_all add: unified_product_api_def)
  qed
qed

lemma product_matches_id: "product_matches [Eq_id pid] = (\<lambda>r. prod_id r = pid)"
  by (simp add: product_matches_def fun_eq_iff)

lemma favorite_action_products:
  assumes "filter (\<lambda>r. prod_id r = pid) (products d) = row # rest"
    and "py_int_of_str (if likes row = [] then ustr ''0'' else likes row) = Inr old_likes"
  shows "products (snd (favorite_action pid d)) =
      map (\<lambda>r. if prod_id r = pid
                then r\<lparr>is_favorite := \<not> is_favorite row,
                       likes := py_str (max 0 (old_likes + (if \<not> is_favorite row then 1 else - 1)))\<rparr>
                else r) (products d)
    \<and> cart_items (snd (favorite_action pid d)) = cart_items d"
  using assms
  by (simp add: favorite_action_def select_products_def update_products_def execute_def
      product_matches_id Let_def)

lemma filter_id_map_update:
  assumes "\<And>r. prod_id (g r) = prod_id r"
  shows "filter (\<lambda>r. prod_id r = pid) (map (\<lambda>r. if prod_id r = pid then g r else r) xs) =
           map g (filter (\<lambda>r. prod_id r = pid) xs)"
  by (induction xs) (simp_all add: assms)

text \<open>
  Claim C1. A favorite toggle on a stored product whose \<open>likes\<close> decodes to the integer
  \<open>old_likes\<close> (the empty string counts as 0) writes to the rows with that id the
  negation of the stored \<open>is_favorite\<close> and the text of
  \<open>new_likes = max 0 (old_likes + (1 if the new flag is true, else -1))\<close>; the
  stored text decodes to \<open>new_likes\<close>, which is not negative. No other product row and no
  cart row changes.
\<close>

theorem favorite_toggle:
  assumes "filter (\<lambda>r. prod_id r = pid) (products d) = row # rest"
    and "py_int_of_str (if likes row = [] then ustr ''0'' else likes row) = Inr old_likes"
    and "new_likes = max 0 (old_likes + (if \<not> is_favorite row then 1 else - 1))"
    and "d' = snd (unified_product_api gen now (ustr ''favorite'') pid uid qty d)"
  shows "products d' =
      map (\<lambda>r. if prod_id r = pid
                then r\<lparr>is_favorite := \<not> is_favorite row, likes := py_str new_likes\<rparr>
                else r) (products d)
    \<and> filter (\<lambda>r. prod_id r = pid) (products d') =
        map (\<lambda>r. r\<lparr>is_favorite := \<not> is_favorite row, likes := py_str new_likes\<rparr>) (row # rest)
    \<and> py_int_of_str (py_str new_likes) = Inr new_likes
    \<and> 0 \<le> new_likes
    \<and> cart_items d' = cart_items d"
proof -
  have p: "perform_action gen (ustr ''favorite'') pid uid qty d = favorite_action pid d"
    by (simp add: perform_action_def)
  from favorite_action_products [OF assms(1,2)] unified_tables [of gen now "ustr ''favorite''" pid uid qty d]
  have 1: "products d' =
      map (\<lambda>r. if prod_id r = pid
                then r\<lparr>is_favorite := \<not> is_favorite row, likes := py_str new_likes\<rparr>
                else r) (products d)"
    and 5: "cart_items d' = cart_items d"
    by (simp_all add: p assms(3,4))
  have 2: "filter (\<lambda>r. prod_id r = pid) (products d') =
        map (\<lambda>r. r\<lparr>is_favorite := \<not> is_favorite row, likes := py_str new_likes\<rparr>) (row # rest)"
    unfolding 1 assms(1) [symmetric]
    by (rule filter_id_map_update) simp
  have 3: "py_int_of_str (py_str new_likes) = Inr new_likes"
    by (rule py_int_of_py_str)
  have 4: "0 \<le> new_likes"
    by (simp add: assms(3))
  from 1 2 3 4 5 show ?thesis by (intro conjI)
qed

theorem favorite_toggle_witness:
  "filter (\<lambda>r. prod_id r = 3) (products sample_db) = sample_product # []
   \<and> py_int_of_str (if likes sample_product = [] then ustr ''0'' else likes sample_product)
       = Inr 0
   \<and> (0::int) = max 0 (0 + (if \<not> is_favorite sample_product then 1 else - 1))
   \<and> products (snd (unified_product_api sample_gen [] (ustr ''favorite'') 3 7 1 sample_db)) =
       [sample_product\<lparr>is_favorite := False, likes := ustr ''0''\<rparr>]"
proof -
  have a: "filter (\<lambda>r. prod_id r = 3) (products sample_db) = sample_product # []"
    by (simp add: sample_db_def sample_product_def)
  have b: "py_int_of_str (if likes sample_product = [] then ustr ''0'' else likes sample_product)
       = Inr 0"
    using py_int_of_str_0 by (simp add: sample_product_def ustr_def)
  have c: "(0::int) = max 0 (0 + (if \<not> is_favorite sample_product then 1 else - 1))"
    by (simp add: sample_product_def)
  have s: "py_str 0 = ustr ''0''"
    by (simp add: py_str_def digits.simps ustr_def)
  have f: "is_favorite sample_product" and i: "prod_id sample_product = 3"
    by (simp_all add: sample_product_def)
  from favorite_toggle [OF a b c refl, of sample_gen "[]" 7 1]
  have "products (snd (unified_product_api sample_gen [] (ustr ''favorite'') 3 7 1 sample_db)) =
      map (\<lambda>r. if prod_id r = 3
                then r\<lparr>is_favorite := \<not> is_favorite sample_product, likes := py_str 0\<rparr>
                else r) (products sample_db)"
    by (rule conjunct1)
  also have "\<dots> = [sample_product\<lparr>is_favorite := False, likes := ustr ''0''\<rparr>]"
    by (simp add: s f i sample_db_def)
  finally show ?thesis using a b c by (intro conjI)
qed

text \<open>
  When the stored \<open>likes\<close> does not decode, the toggle raises before the update: the
  call answers 500 and the tables are as before.
\<close>

lemma favorite_toggle_undecodable:
  assumes "filter (\<lambda>r. prod_id r = pid) (products d) = row # rest"
    and "py_int_of_str (if likes row = [] then ustr ''0'' else likes row) = Inl e"
  shows "unified_product_api gen now (ustr ''favorite'') pid uid qty d =
           (Inl (HTTPException 500 (Detail_str e)), execute d)"
  using assms
  by (simp add: unified_product_api_def perform_action_def favorite_action_def
      select_products_def product_matches_id)

lemma cart_matches_pair_fun:
  "cart_matches [Eq_user_id uid, Eq_product_id pid] =
     (\<lambda>r. user_id r = uid \<and> product_id r = pid)"
  by (simp add: cart_matches_def fun_eq_iff)

lemma perform_cart_add:
  "perform_action gen (ustr ''cart-add'') pid uid qty d = cart_add_action gen pid uid qty d"
  by (simp add: perform_action_def ustr_def)

lemma cart_add_existing:
  assumes "filter (\<lambda>r. user_id r = uid \<and> product_id r = pid) (cart_items d) = row # rest"
  shows "cart_items (snd (cart_add_action gen pid uid qty d)) =
      map (\<lambda>r. if user_id r = uid \<and> product_id r = pid
                then r\<lparr>quantity := quantity row + qty\<rparr> else r) (cart_items d)"
  using assms
  by (simp add: cart_add_action_def select_cart_items_def update_cart_items_def execute_def
      cart_matches_pair_fun Let_def)

lemma cart_add_absent:
  assumes "filter (\<lambda>r. user_id r = uid \<and> product_id r = pid) (cart_items d) = []"
  shows "cart_items (snd (cart_add_action gen pid uid qty d)) =
      cart_items d @
        [\<lparr>cart_id = gen_id gen, user_id = uid, product_id = pid, quantity = qty,
          selected_options = [], cart_created_at = gen_time gen, updated_at = gen_time gen\<rparr>]"
  using assms
  by (simp add: cart_add_action_def select_cart_items_def insert_cart_item_def execute_def
      cart_matches_pair_fun Let_def)

lemma cart_add_products:
  "products (snd (cart_add_action gen pid uid qty d)) = products d"
  by (simp add: cart_add_action_def select_cart_items_def insert_cart_item_def
      update_cart_items_def execute_def Let_def split: list.split)

text \<open>
  Claim C2. A cart-add call writes, when the cart holds a row of the user and the product,
  the quantity of that row plus the requested quantity into the rows of the pair, and
  otherwise appends one row with the requested quantity. Two cart-add calls in a row for
  an absent pair leave a single row of the pair, holding the sum of the two quantities
  (2 and 3 give 5). The products are not changed.
\<close>

theorem cart_add_effect:
  "(filter (\<lambda>r. user_id r = uid \<and> product_id r = pid) (cart_items d) = row # rest \<longrightarrow>
      cart_items (snd (unified_product_api gen now (ustr ''cart-add'') pid uid qty d)) =
        map (\<lambda>r. if user_id r = uid \<and> product_id r = pid
                  then r\<lparr>quantity := quantity row + qty\<rparr> else r) (cart_items d))
   \<and> (filter (\<lambda>r. user_id r = uid \<and> product_id r = pid) (cart_items d) = [] \<longrightarrow>
      cart_items (snd (unified_product_api gen now (ustr ''cart-add'') pid uid qty d)) =
        cart_items d @
          [\<lparr>cart_id = gen_id gen, user_id = uid, product_id = pid, quantity = qty,
            selected_options = [], cart_created_at = gen_time gen,
            updated_at = gen_time gen\<rparr>]
      \<and> filter (\<lambda>r. user_id r = uid \<and> product_id r = pid)
          (cart_items (snd (unified_product_api gen2 now2 (ustr ''cart-add'') pid uid qty2
             (snd (unified_product_api gen now (ustr ''cart-add'') pid uid qty d))))) =
          [\<lparr>cart_id = gen_id gen, user_id = uid, product_id = pid, quantity = qty + qty2,
            selected_options = [], cart_created_at = gen_time gen,
            updated_at = gen_time gen\<rparr>])
   \<and> products (snd (unified_product_api gen now (ustr ''cart-add'') pid uid qty d)) =
       products d"
proof -
  let ?P = "\<lambda>r. user_id r = uid \<and> product_id r = pid"
  let ?new = "\<lparr>cart_id = gen_id gen, user_id = uid, product_id = pid, quantity = qty,
            selected_options = [], cart_created_at = gen_time gen,
            updated_at = gen_time gen\<rparr>"
  let ?d1 = "snd (unified_product_api gen now (ustr ''cart-add'') pid uid qty d)"
  let ?d2 = "snd (unified_product_api gen2 now2 (ustr ''cart-add'') pid uid qty2 ?d1)"
  have items: "cart_items (snd (unified_product_api g n (ustr ''cart-add'') pid uid q e)) =
      cart_items (snd (cart_add_action g pid uid q e))" for g n q e
    using unified_tables [of g n "ustr ''cart-add''" pid uid q e]
    by (simp add: perform_cart_add)
  have 1: "cart_items ?d1 =
        map (\<lambda>r. if ?P r then r\<lparr>quantity := quantity row + qty\<rparr> else r) (cart_items d)"
    if "filter ?P (cart_items d) = row # rest"
    using cart_add_existing [OF that] by (simp add: items)
  have 2: "cart_items ?d1 = cart_items d @ [?new]" if "filter ?P (cart_items d) = []"
    using cart_add_absent [OF that] by (simp add: items)
  have 3: "filter ?P (cart_items ?d2) = [?new\<lparr>quantity := qty + qty2\<rparr>]"
    if a: "filter ?P (cart_items d) = []"
  proof -
    from a have f: "filter ?P (cart_items ?d1) = ?new # []"
      by (simp add: 2 [OF a])
    have "cart_items ?d2 =
        map (\<lambda>r. if ?P r then r\<lparr>quantity := quantity ?new + qty2\<rparr> else r) (cart_items ?d1)"
      using cart_add_existing [OF f] by (simp add: items)
    also have "\<dots> = map (\<lambda>r. if ?P r then r\<lparr>quantity := qty + qty2\<rparr> else r)
        (cart_items d) @ [?new\<lparr>quantity := qty + qty2\<rparr>]"
      by (simp add: 2 [OF a])
    also have "filter ?P \<dots> = [?new\<lparr>quantity := qty + qty2\<rparr>]"
      using a by (simp add: filter_empty_conv filter_map comp_def)
    finally show ?thesis .
  qed
  have 4: "products ?d1 = products d"
    using unified_tables [of gen now "ustr ''cart-add''" pid uid qty d]
    by (simp add: perform_cart_add cart_add_products)
  from 1 2 3 4 show ?thesis by simp
qed

theorem cart_add_effect_witness:
  "filter (\<lambda>r. user_id r = 7 \<and> product_id r = 3) (cart_items empty_db) = []
   \<and> cart_items (snd (unified_product_api sample_gen [] (ustr ''cart-add'') 3 7 2 empty_db)) =
        [\<lparr>cart_id = 2, user_id = 7, product_id = 3, quantity = 2,
          selected_options = [], cart_created_at = 70, updated_at = 70\<rparr>]
   \<and> filter (\<lambda>r. user_id r = 7 \<and> product_id r = 3)
        (cart_items (snd (unified_product_api sample_gen [] (ustr ''cart-add'') 3 7 3
           (snd (unified_product_api sample_gen [] (ustr ''cart-add'') 3 7 2 empty_db))))) =
        [\<lparr>cart_id = 2, user_id = 7, product_id = 3, quantity = 5,
          selected_options = [], cart_created_at = 70, updated_at = 70\<rparr>]"
proof -
  have a: "filter (\<lambda>r. user_id r = 7 \<and> product_id r = 3) (cart_items empty_db) = []"
    by (simp add: empty_db_def)
  from cart_add_effect [where uid = 7 and pid = 3 and d = empty_db and gen = sample_gen
      and now = "[]" and qty = 2 and ?gen2.0 = sample_gen and ?now2.0 = "[]" and ?qty2.0 = 3] a
  show ?thesis
    by (simp add: empty_db_def sample_gen_def)
qed

lemma map_if_absent: "filter P xs = [] \<Longrightarrow> map (\<lambda>r. if P r then g r else r) xs = xs"
  by (induction xs) (auto split: if_splits)

lemma unified_fst:
  assumes "perform_action gen action pid uid qty d = (Inr msg, d1)"
  shows "fst (unified_product_api gen now action pid uid qty d) =
           map_sum reraise id (fst (consolidated_response now pid uid msg d1))"
  using assms
  by (simp add: unified_product_api_def split: prod.split sum.split)

lemma consolidated_fst_cong:
  assumes "products d = products e" and "cart_items d = cart_items e"
  shows "fst (consolidated_response now pid uid msg d) =
           fst (consolidated_response now pid uid msg e)"
  using assms
  by (simp add: consolidated_response_def select_products_def select_cart_items_def
      execute_def split: list.split sum.split)

lemma consolidated_404:
  assumes "filter (\<lambda>r. prod_id r = pid) (products d) = []"
  shows "fst (consolidated_response now pid uid msg d) =
           Inl (HTTPException 404 (Detail msg_not_found))"
  using assms
  by (simp add: consolidated_response_def select_products_def product_matches_id)

lemma consolidated_ok:
  assumes "filter (\<lambda>r. prod_id r = pid) (products d) = product # rest"
    and "format_product product = Inr f"
    and "py_int_of_str (likes product) = Inr n"
    and "filter (\<lambda>r. user_id r = uid \<and> product_id r = pid) (cart_items d) = []"
  shows "fst (consolidated_response now pid uid msg d) =
           Inr (create_standard_response now
                  \<lparr>r_product = f, r_is_favorite = is_favorite product, r_in_cart = False,
                   r_cart_quantity = 0, r_likes = n\<rparr> msg)"
proof -
  from assms(4) have "filter (cart_matches [Eq_user_id uid, Eq_product_id pid, Gt_quantity 0])
      (cart_items d) = []"
    by (auto simp: filter_empty_conv cart_matches_pair_gt0)
  with assms(1,2,3) show ?thesis
    by (simp add: consolidated_response_def select_products_def product_matches_id
        select_cart_items_def execute_def)
qed

lemma perform_cart_update:
  "perform_action gen (ustr ''cart-update'') pid uid qty d =
     (Inr (msg_quantity_changed qty),
      update_cart_items qty [Eq_user_id uid, Eq_product_id pid] d)"
  by (simp add: perform_action_def ustr_def)

lemma perform_cart_remove:
  "perform_action gen (ustr ''cart-remove'') pid uid qty d =
     (Inr msg_cart_removed, delete_cart_items [Eq_user_id uid, Eq_product_id pid] d)"
  by (simp add: perform_action_def ustr_def)

text \<open>
  Claim C4, as stated, fails: with no product and no cart row stored, the cart-update
  call raises the \<open>HTTPException\<close> 404 of the product lookup.
\<close>

theorem cart_update_missing_product_404:
  "cart_items empty_db = []
   \<and> fst (unified_product_api sample_gen [] (ustr ''cart-update'') 3 7 5 empty_db) =
       Inl (HTTPException 404 (Detail msg_not_found))"
proof -
  have "fst (unified_product_api sample_gen [] (ustr ''cart-update'') 3 7 5 empty_db) =
      map_sum reraise id (fst (consolidated_response [] 3 7 (msg_quantity_changed 5)
        (update_cart_items 5 [Eq_user_id 7, Eq_product_id 3] empty_db)))"
    by (rule unified_fst [OF perform_cart_update])
  also have "\<dots> = Inl (HTTPException 404 (Detail msg_not_found))"
    by (simp add: consolidated_404 update_cart_items_def execute_def empty_db_def)
  finally show ?thesis by (simp add: empty_db_def)
qed

text \<open>
  Claim C4, amended. A cart-update call for a pair without a cart row leaves the cart rows
  and the products as they are. The missing row is not an error: the call raises 404 when
  the product is not stored, and when the product is stored with a price, a discount and
  likes that decode, it returns the consolidated response with \<open>in_cart\<close> false and
  \<open>cart_quantity\<close> 0.
\<close>

theorem cart_update_absent:
  assumes "filter (\<lambda>r. user_id r = uid \<and> product_id r = pid) (cart_items d) = []"
  shows "cart_items (snd (unified_product_api gen now (ustr ''cart-update'') pid uid qty d)) =
       cart_items d
    \<and> products (snd (unified_product_api gen now (ustr ''cart-update'') pid uid qty d)) =
       products d
    \<and> (filter (\<lambda>r. prod_id r = pid) (products d) = [] \<longrightarrow>
         fst (unified_product_api gen now (ustr ''cart-update'') pid uid qty d) =
           Inl (HTTPException 404 (Detail msg_not_found)))
    \<and> (filter (\<lambda>r. prod_id r = pid) (products d) = product # rest
         \<and> format_product product = Inr f \<and> py_int_of_str (likes product) = Inr n \<longrightarrow>
         fst (unified_product_api gen now (ustr ''cart-update'') pid uid qty d) =
           Inr (create_standard_response now
                  \<lparr>r_product = f, r_is_favorite = is_favorite product, r_in_cart = False,
                   r_cart_quantity = 0, r_likes = n\<rparr> (msg_quantity_changed qty)))"
proof -
  let ?d1 = "update_cart_items qty [Eq_user_id uid, Eq_product_id pid] d"
  let ?api = "unified_product_api gen now (ustr ''cart-update'') pid uid qty d"
  have c: "cart_items ?d1 = cart_items d"
    using map_if_absent [OF assms]
    by (simp add: update_cart_items_def execute_def cart_matches_pair_fun)
  have p: "products ?d1 = products d"
    by (simp add: update_cart_items_def execute_def)
  have 1: "cart_items (snd ?api) = cart_items d" and 2: "products (snd ?api) = products d"
    using unified_tables [of gen now "ustr ''cart-update''" pid uid qty d]
    by (simp_all add: perform_cart_update c p)
  have r: "fst ?api = map_sum reraise id
      (fst (consolidated_response now pid uid (msg_quantity_changed qty) ?d1))"
    by (rule unified_fst [OF perform_cart_update])
  have 3: "fst ?api = Inl (HTTPException 404 (Detail msg_not_found))"
    if "filter (\<lambda>r. prod_id r = pid) (products d) = []"
    using that by (simp add: r consolidated_404 p)
  have 4: "fst ?api = Inr (create_standard_response now
                  \<lparr>r_product = f, r_is_favorite = is_favorite product, r_in_cart = False,
                   r_cart_quantity = 0, r_likes = n\<rparr> (msg_quantity_changed qty))"
    if "filter (\<lambda>r. prod_id r = pid) (products d) = product # rest"
      and "format_product product = Inr f" and "py_int_of_str (likes product) = Inr n"
  proof -
    from that(1) have a: "filter (\<lambda>r. prod_id r = pid) (products ?d1) = product # rest"
      by (simp add: p)
    from assms have b: "filter (\<lambda>r. user_id r = uid \<and> product_id r = pid) (cart_items ?d1) = []"
      by (simp add: c)
    show ?thesis
      by (simp add: r consolidated_ok [OF a that(2,3) b])
  qed
  from 1 2 3 4 show ?thesis by blast
qed

theorem cart_update_absent_witness:
  "filter (\<lambda>r. user_id r = 8 \<and> product_id r = 3) (cart_items sample_db) = []
   \<and> cart_items (snd (unified_product_api sample_gen [] (ustr ''cart-update'') 3 8 5 sample_db))
       = [sample_cart_item]
   \<and> (\<exists>f. format_product sample_product = Inr f
        \<and> fst (unified_product_api sample_gen [] (ustr ''cart-update'') 3 8 5 sample_db) =
            Inr (create_standard_response []
                   \<lparr>r_product = f, r_is_favorite = True, r_in_cart = False,
                    r_cart_quantity = 0, r_likes = 0\<rparr> (msg_quantity_changed 5)))"
proof -
  have a: "filter (\<lambda>r. user_id r = 8 \<and> product_id r = 3) (cart_items sample_db) = []"
    by (simp add: sample_db_def sample_cart_item_def)
  have p: "filter (\<lambda>r. prod_id r = 3) (products sample_db) = sample_product # []"
    by (simp add: sample_db_def sample_product_def)
  obtain f where f: "format_product sample_product = Inr f"
    using sample_product_formats [where i = 3 and l = "ustr ''0''"]
    by (simp add: sample_product_def)
  have l: "py_int_of_str (likes sample_product) = Inr 0"
    using py_int_of_str_0 by (simp add: sample_product_def)
  have t: "is_favorite sample_product"
    by (simp add: sample_product_def)
  note w = cart_update_absent [OF a, where gen = sample_gen and now = "[]" and qty = 5
      and product = sample_product and rest = "[]" and f = f and n = 0]
  from w have "cart_items (snd (unified_product_api sample_gen [] (ustr ''cart-update'') 3 8 5
      sample_db)) = [sample_cart_item]"
    by (simp add: sample_db_def)
  moreover from w p f l t
  have "fst (unified_product_api sample_gen [] (ustr ''cart-update'') 3 8 5 sample_db) =
            Inr (create_standard_response []
                   \<lparr>r_product = f, r_is_favorite = True, r_in_cart = False,
                    r_cart_quantity = 0, r_likes = 0\<rparr> (msg_quantity_changed 5))"
    by simp
  ultimately show ?thesis using a f by blast
qed

text \<open>
  Claim C5, as stated, fails: with no product stored, the second cart-remove call raises
  the \<open>HTTPException\<close> 404 of the product lookup.
\<close>

theorem cart_remove_twice_missing_product_404:
  "fst (unified_product_api sample_gen [] (ustr ''cart-remove'') 3 7 1
     (snd (unified_product_api sample_gen [] (ustr ''cart-remove'') 3 7 1 empty_db))) =
     Inl (HTTPException 404 (Detail msg_not_found))"
proof -
  let ?d1 = "snd (unified_product_api sample_gen [] (ustr ''cart-remove'') 3 7 1 empty_db)"
  have "products ?d1 = products (delete_cart_items [Eq_user_id 7, Eq_product_id 3] empty_db)"
    using unified_tables [of sample_gen "[]" "ustr ''cart-remove''" 3 7 1 empty_db]
    by (simp add: perform_cart_remove)
  then have p: "products ?d1 = []"
    by (simp add: delete_cart_items_def execute_def empty_db_def)
  have "fst (unified_product_api sample_gen [] (ustr ''cart-remove'') 3 7 1 ?d1) =
      map_sum reraise id (fst (consolidated_response [] 3 7 msg_cart_removed
        (delete_cart_items [Eq_user_id 7, Eq_product_id 3] ?d1)))"
    by (rule unified_fst [OF perform_cart_remove])
  also have "\<dots> = Inl (HTTPException 404 (Detail msg_not_found))"
    by (simp add: consolidated_404 delete_cart_items_def execute_def p)
  finally show ?thesis .
qed

text \<open>
  Claim C5, amended. A cart-remove call deletes the cart rows of the pair, and a second
  cart-remove call in a row leaves the cart rows and the products as the first call left
  them. The second call has the outcome of the first: it raises 404 when the product is
  not stored, and when the product is stored with a price, a discount and likes that
  decode, it returns the consolidated response with \<open>in_cart\<close> false and
  \<open>cart_quantity\<close> 0.
\<close>

theorem cart_remove_twice:
  assumes "d1 = snd (unified_product_api gen now (ustr ''cart-remove'') pid uid qty d)"
    and "d2 = snd (unified_product_api gen2 now (ustr ''cart-remove'') pid uid qty2 d1)"
  shows "cart_items d1 =
       filter (\<lambda>r. \<not> (user_id r = uid \<and> product_id r = pid)) (cart_items d)
    \<and> filter (\<lambda>r. user_id r = uid \<and> product_id r = pid) (cart_items d1) = []
    \<and> cart_items d2 = cart_items d1
    \<and> products d2 = products d1
    \<and> products d1 = products d
    \<and> fst (unified_product_api gen2 now (ustr ''cart-remove'') pid uid qty2 d1) =
       fst (unified_product_api gen now (ustr ''cart-remove'') pid uid qty d)
    \<and> (filter (\<lambda>r. prod_id r = pid) (products d) = [] \<longrightarrow>
         fst (unified_product_api gen2 now (ustr ''cart-remove'') pid uid qty2 d1) =
           Inl (HTTPException 404 (Detail msg_not_found)))
    \<and> (filter (\<lambda>r. prod_id r = pid) (products d) = product # rest
         \<and> format_product product = Inr f \<and> py_int_of_str (likes product) = Inr n \<longrightarrow>
         fst (unified_product_api gen2 now (ustr ''cart-remove'') pid uid qty2 d1) =
           Inr (create_standard_response now
                  \<lparr>r_product = f, r_is_favorite = is_favorite product, r_in_cart = False,
                   r_cart_quantity = 0, r_likes = n\<rparr> msg_cart_removed))"
proof -
  let ?P = "\<lambda>r. user_id r = uid \<and> product_id r = pid"
  let ?del = "delete_cart_items [Eq_user_id uid, Eq_product_id pid]"
  have dc: "cart_items (?del e) = filter (\<lambda>r. \<not> ?P r) (cart_items e)"
    and dp: "products (?del e) = products e" for e
    by (simp_all add: delete_cart_items_def execute_def cart_matches_pair_fun)
  have 1: "cart_items d1 = filter (\<lambda>r. \<not> ?P r) (cart_items d)"
    and 5: "products d1 = products d"
    using unified_tables [of gen now "ustr ''cart-remove''" pid uid qty d]
    by (simp_all add: assms(1) perform_cart_remove dc dp)
  have 2: "filter ?P (cart_items d1) = []"
    by (simp add: 1 filter_empty_conv)
  have "cart_items d2 = filter (\<lambda>r. \<not> ?P r) (cart_items d1)"
    and 4: "products d2 = products d1"
    using unified_tables [of gen2 now "ustr ''cart-remove''" pid uid qty2 d1]
    by (simp_all add: assms(2) perform_cart_remove dc dp)
  then have 3: "cart_items d2 = cart_items d1"
    by (simp add: 1)
  have r1: "fst (unified_product_api gen now (ustr ''cart-remove'') pid uid qty d) =
      map_sum reraise id (fst (consolidated_response now pid uid msg_cart_removed (?del d)))"
    by (rule unified_fst [OF perform_cart_remove])
  have r2: "fst (unified_product_api gen2 now (ustr ''cart-remove'') pid uid qty2 d1) =
      map_sum reraise id (fst (consolidated_response now pid uid msg_cart_removed (?del d1)))"
    by (rule unified_fst [OF perform_cart_remove])
  have e: "fst (consolidated_response now pid uid msg_cart_removed (?del d1)) =
      fst (consolidated_response now pid uid msg_cart_removed (?del d))"
    by (rule consolidated_fst_cong) (simp_all add: dc dp 1 5)
  have 6: "fst (unified_product_api gen2 now (ustr ''cart-remove'') pid uid qty2 d1) =
       fst (unified_product_api gen now (ustr ''cart-remove'') pid uid qty d)"
    by (simp add: r1 r2 e)
  have 7: "fst (unified_product_api gen2 now (ustr ''cart-remove'') pid uid qty2 d1) =
           Inl (HTTPException 404 (Detail msg_not_found))"
    if "filter (\<lambda>r. prod_id r = pid) (products d) = []"
    using that by (simp add: r2 consolidated_404 dp 5)
  have 8: "fst (unified_product_api gen2 now (ustr ''cart-remove'') pid uid qty2 d1) =
           Inr (create_standard_response now
                  \<lparr>r_product = f, r_is_favorite = is_favorite product, r_in_cart = False,
                   r_cart_quantity = 0, r_likes = n\<rparr> msg_cart_removed)"
    if "filter (\<lambda>r. prod_id r = pid) (products d) = product # rest"
      and "format_product product = Inr f" and "py_int_of_str (likes product) = Inr n"
  proof -
    from that(1) have a: "filter (\<lambda>r. prod_id r = pid) (products (?del d1)) = product # rest"
      by (simp add: dp 5)
    have b: "filter ?P (cart_items (?del d1)) = []"
      by (simp add: dc filter_empty_conv)
    show ?thesis
      by (simp add: r2 consolidated_ok [OF a that(2,3) b])
  qed
  from 1 2 3 4 5 6 7 8 show ?thesis by blast
qed

theorem cart_remove_twice_witness:
  "cart_items (snd (unified_product_api sample_gen [] (ustr ''cart-remove'') 3 7 1 sample_db))
     = []
   \<and> cart_items (snd (unified_product_api sample_gen [] (ustr ''cart-remove'') 3 7 1
        (snd (unified_product_api sample_gen [] (ustr ''cart-remove'') 3 7 1 sample_db)))) = []
   \<and> (\<exists>f. format_product sample_product = Inr f
        \<and> fst (unified_product_api sample_gen [] (ustr ''cart-remove'') 3 7 1
             (snd (unified_product_api sample_gen [] (ustr ''cart-remove'') 3 7 1 sample_db))) =
            Inr (create_standard_response []
                   \<lparr>r_product = f, r_is_favorite = True, r_in_cart = False,
                    r_cart_quantity = 0, r_likes = 0\<rparr> msg_cart_removed))"
proof -
  let ?d1 = "snd (unified_product_api sample_gen [] (ustr ''cart-remove'') 3 7 1 sample_db)"
  let ?d2 = "snd (unified_product_api sample_gen [] (ustr ''cart-remove'') 3 7 1 ?d1)"
  have p: "filter (\<lambda>r. prod_id r = 3) (products sample_db) = sample_product # []"
    by (simp add: sample_db_def sample_product_def)
  obtain f where f: "format_product sample_product = Inr f"
    using sample_product_formats [where i = 3 and l = "ustr ''0''"]
    by (simp add: sample_product_def)
  have l: "py_int_of_str (likes sample_product) = Inr 0"
    using py_int_of_str_0 by (simp add: sample_product_def)
  have t: "is_favorite sample_product"
    by (simp add: sample_product_def)
  note w = cart_remove_twice [OF refl refl, where gen = sample_gen and now = "[]" and qty = 1
      and pid = 3 and uid = 7 and d = sample_db and ?gen2.0 = sample_gen and ?qty2.0 = 1
      and product = sample_product and rest = "[]" and f = f and n = 0]
  note w1 = w [THEN conjunct1]
  note w3 = w [THEN conjunct2, THEN conjunct2, THEN conjunct1]
  note w8 = w [THEN conjunct2, THEN conjunct2, THEN conjunct2, THEN conjunct2,
      THEN conjunct2, THEN conjunct2, THEN conjunct2]
  have 1: "cart_items ?d1 = []"
    unfolding w1 by (simp add: sample_db_def sample_cart_item_def)
  have 2: "cart_items ?d2 = []"
    unfolding w3 by (rule 1)
  from p f l have "filter (\<lambda>r. prod_id r = 3) (products sample_db) = sample_product # []
         \<and> format_product sample_product = Inr f
         \<and> py_int_of_str (likes sample_product) = Inr 0"
    by (intro conjI)
  from w8 [rule_format, OF this] t
  have 3: "fst (unified_product_api sample_gen [] (ustr ''cart-remove'') 3 7 1 ?d1) =
            Inr (create_standard_response []
                   \<lparr>r_product = f, r_is_favorite = True, r_in_cart = False,
                    r_cart_quantity = 0, r_likes = 0\<rparr> msg_cart_removed)"
    by simp
  from 1 2 3 f show ?thesis by blast
qed

end
